theory Spec2Isabelle
  imports Complex_Main "HOL-Library.Log_Nat"
begin

section \<open>JavaScript numbers\<close>

text \<open>
  The program computes with IEEE doubles. The combined score of the application, on
  which the verdict of an attempt rests, is embedded with the arithmetic of doubles,
  rounding included (subsection Doubles below). The analyzers and the verifiers are
  embedded over the reals, so that the rounding error of their floating-point
  operations and overflow of finite values are not represented there: where a quantity
  computed in doubles falls on the other side of a threshold, or of a rounding tie,
  than its exact value, the embedding follows the exact value. The three non-finite
  doubles are represented where the program can produce them, namely where it divides
  by a distance that may be zero: the quotient is then a \<open>jsnum\<close>, and comparisons with
  a non-finite operand follow JavaScript (every comparison with NaN is false).
\<close>

datatype jsnum = Fin real | PosInf | NegInf | NaN

text \<open>\<open>a / d\<close> for a divisor that is the result of \<open>Math.sqrt\<close>, hence never negative
  and never the negative zero.\<close>

definition js_div :: "real \<Rightarrow> real \<Rightarrow> jsnum" where
  "js_div a d =
     (if d \<noteq> 0 then Fin (a / d)
      else if 0 < a then PosInf
      else if a < 0 then NegInf
      else NaN)"

fun js_add :: "jsnum \<Rightarrow> jsnum \<Rightarrow> jsnum" where
  "js_add (Fin a) (Fin b) = Fin (a + b)"
| "js_add NaN _ = NaN"
| "js_add _ NaN = NaN"
| "js_add PosInf NegInf = NaN"
| "js_add NegInf PosInf = NaN"
| "js_add PosInf _ = PosInf"
| "js_add _ PosInf = PosInf"
| "js_add NegInf _ = NegInf"
| "js_add _ NegInf = NegInf"

text \<open>Division of a \<open>jsnum\<close> by a positive finite constant.\<close>

fun js_scale_down :: "jsnum \<Rightarrow> real \<Rightarrow> jsnum" where
  "js_scale_down (Fin a) c = Fin (a / c)"
| "js_scale_down v c = v"

fun js_lt :: "jsnum \<Rightarrow> real \<Rightarrow> bool" where
  "js_lt (Fin a) c = (a < c)"
| "js_lt NegInf c = True"
| "js_lt PosInf c = False"
| "js_lt NaN c = False"

fun js_gt :: "jsnum \<Rightarrow> real \<Rightarrow> bool" where
  "js_gt (Fin a) c = (a > c)"
| "js_gt PosInf c = True"
| "js_gt NegInf c = False"
| "js_gt NaN c = False"


text \<open>\<open>Math.round\<close> on a finite number: the nearest integer, ties towards plus
  infinity.\<close>

definition js_round :: "real \<Rightarrow> int" where
  "js_round x = \<lfloor>x + 1 / 2\<rfloor>"

subsection \<open>Doubles\<close>











section \<open>Rolling histories\<close>

text \<open>
  Every analyzer keeps its history the same way: \<open>push\<close> the new entry, then one
  \<open>shift\<close> if the length now exceeds the capacity. \<open>shift\<close> on a non-empty array
  removes the first element.
\<close>

definition push_shift :: "nat \<Rightarrow> 'a \<Rightarrow> 'a list \<Rightarrow> 'a list" where
  "push_shift cap x xs =
     (let ys = xs @ [x] in if length ys > cap then tl ys else ys)"

text \<open>A sequence of insertions into a history of capacity \<open>cap\<close>, oldest first.\<close>

definition insert_all :: "nat \<Rightarrow> 'a list \<Rightarrow> 'a list \<Rightarrow> 'a list" where
  "insert_all cap xs h = fold (push_shift cap) xs h"

section \<open>LivenessChallenger\<close>

subsection \<open>Data\<close>

text \<open>A coarse landmark is an array \<open>[x, y]\<close>; a dense keypoint is an object
  \<open>{x, y, z}\<close> whose \<open>z\<close> may be absent. The program tells the two apart only by
  how it reads them; the embedding names the two shapes.\<close>

type_synonym point = "real \<times> real"

record keypoint =
  kp_x :: real
  kp_y :: real
  kp_z :: "real option"

datatype landmarks = Coarse "point list" | Dense "keypoint list"

fun lm_length :: "landmarks \<Rightarrow> nat" where
  "lm_length (Coarse ps) = length ps"
| "lm_length (Dense ks) = length ks"

text \<open>The fields of the detection data that the verifiers read. \<open>landmarks\<close> is
  \<open>None\<close> when the detector found no face (\<open>null\<close>).\<close>

record detection_data =
  landmarks :: "landmarks option"
  isHighRes :: bool

datatype js_error = TypeError

datatype verifier = VerifyBlink | VerifySmile | VerifyHeadTurn

text \<open>A challenge descriptor. The icon, a pictograph shown on screen, is left out.\<close>

record challenge =
  ch_id :: string
  ch_name :: string
  ch_instruction :: string
  ch_duration :: int
  ch_verify :: verifier

text \<open>An entry of \<open>challengeHistory\<close>, built by \<open>completeChallenge\<close>.\<close>

record challenge_result =
  r_id :: string
  r_name :: string
  r_success :: bool
  r_duration :: int

record turn_states =
  left :: bool
  center :: bool
  right :: bool

record baseline_t =
  eyeDistance :: "real option"
  mouthWidth :: "real option"
  eyeToEyebrowDistance :: "real option"
  faceWidth :: "real option"

record challenger =
  challenges :: "challenge list"
  currentChallenge :: "challenge option"
  challengeHistory :: "challenge_result list"
  isActive :: bool
  startTime :: "int option"
  landmarkHistory :: "landmarks list"
  blinkCount :: nat
  blinkState :: "string option"
  headTurnStates :: turn_states
  eyeMovementStates :: turn_states
  mouthOpenDetected :: bool
  eyebrowRaiseDetected :: bool
  baseline :: baseline_t

text \<open>\<open>maxHistoryLength\<close> and \<open>blinkRequired\<close> are assigned in the constructor only.\<close>

definition maxHistoryLength :: nat where
  "maxHistoryLength = 30"

definition blinkRequired :: nat where
  "blinkRequired = 2"

definition no_turn :: turn_states where
  "no_turn = \<lparr>left = False, center = False, right = False\<rparr>"

definition no_baseline :: baseline_t where
  "no_baseline = \<lparr>eyeDistance = None, mouthWidth = None,
     eyeToEyebrowDistance = None, faceWidth = None\<rparr>"

definition blink_challenge :: challenge where
  "blink_challenge = \<lparr>ch_id = ''blink'', ch_name = ''Blink Detection'',
     ch_instruction = ''Please blink your eyes twice'', ch_duration = 10000,
     ch_verify = VerifyBlink\<rparr>"

definition smile_challenge :: challenge where
  "smile_challenge = \<lparr>ch_id = ''smile'', ch_name = ''Smile Detection'',
     ch_instruction = ''Please smile naturally'', ch_duration = 8000,
     ch_verify = VerifySmile\<rparr>"

definition turnHead_challenge :: challenge where
  "turnHead_challenge = \<lparr>ch_id = ''turnHead'', ch_name = ''Head Turn'',
     ch_instruction = ''Turn your head slowly left, then right'', ch_duration = 12000,
     ch_verify = VerifyHeadTurn\<rparr>"

text \<open>The state the constructor leaves.\<close>

definition new_challenger :: challenger where
  "new_challenger = \<lparr>
     challenges = [blink_challenge, smile_challenge, turnHead_challenge],
     currentChallenge = None, challengeHistory = [], isActive = False, startTime = None,
     landmarkHistory = [], blinkCount = 0, blinkState = None,
     headTurnStates = no_turn, eyeMovementStates = no_turn,
     mouthOpenDetected = False, eyebrowRaiseDetected = False, baseline = no_baseline\<rparr>"

subsection \<open>Selecting and running a challenge\<close>

text \<open>Reading \<open>xs[i]\<close>: \<open>None\<close> stands for \<open>undefined\<close>.\<close>

definition js_index :: "'a list \<Rightarrow> int \<Rightarrow> 'a option" where
  "js_index xs i = (if 0 \<le> i \<and> i < int (length xs) then Some (xs ! nat i) else None)"

text \<open>\<open>getRandomChallenge\<close>. The argument \<open>r\<close> is the value of \<open>Math.random()\<close>.\<close>

definition availableChallenges :: "challenger \<Rightarrow> challenge list" where
  "availableChallenges s =
     filter (\<lambda>c. ch_id c \<notin> set (map r_id (challengeHistory s))) (challenges s)"

definition getRandomChallenge :: "real \<Rightarrow> challenger \<Rightarrow> challenge option \<times> challenger" where
  "getRandomChallenge r s =
     (let av = availableChallenges s in
      if length av = 0 then (None, s\<lparr>challengeHistory := []\<rparr>)
      else (js_index av \<lfloor>r * real (length av)\<rfloor>, s))"

text \<open>A timer the program asks the runtime for: \<open>setTimeout\<close> or \<open>setInterval\<close> with
  a delay in milliseconds.\<close>

datatype timer_request = SetTimeout int | SetInterval int

text \<open>\<open>initChallengeState\<close>. \<open>now\<close> is \<open>Date.now()\<close>. The state is reset first; reading
  \<open>this.currentChallenge.name\<close> then throws when there is no current challenge.
  Otherwise two timers are requested: the timeout, after the challenge's duration, and
  the progress interval, every 100 ms. Neither handle is stored.\<close>

definition initChallengeState :: "int \<Rightarrow> challenger \<Rightarrow> challenger \<times> (js_error + timer_request list)" where
  "initChallengeState now s =
     (let s1 = s\<lparr>isActive := True, startTime := Some now, landmarkHistory := [],
                 blinkCount := 0, blinkState := Some ''OPEN'',
                 headTurnStates := no_turn, eyeMovementStates := no_turn,
                 mouthOpenDetected := False, eyebrowRaiseDetected := False,
                 baseline := no_baseline\<rparr>
      in case currentChallenge s1 of
           None \<Rightarrow> (s1, Inl TypeError)
         | Some c \<Rightarrow> (s1, Inr [SetTimeout (ch_duration c), SetInterval 100]))"

definition startChallengeExplicit ::
  "challenge option \<Rightarrow> int \<Rightarrow> challenger \<Rightarrow> challenger \<times> (js_error + timer_request list)" where
  "startChallengeExplicit c now s = initChallengeState now (s\<lparr>currentChallenge := c\<rparr>)"

text \<open>What \<open>startChallenge\<close> does besides changing the state: it either reports, through
  \<open>onComplete\<close>, that all challenges are complete, or starts the selected challenge.\<close>

datatype start_outcome =
    AllChallengesComplete
  | Started "js_error + timer_request list"

definition startChallenge :: "real \<Rightarrow> int \<Rightarrow> challenger \<Rightarrow> challenger \<times> start_outcome" where
  "startChallenge r now s =
     (let (c, s1) = getRandomChallenge r s;
          s2 = s1\<lparr>currentChallenge := c\<rparr>
      in if currentChallenge s2 = None then (s2, AllChallengesComplete)
         else (let (s3, t) = initChallengeState now s2 in (s3, Started t)))"

text \<open>\<open>completeChallenge\<close>. The second component is the argument of \<open>onComplete\<close>, if it
  is called. \<open>Date.now() - this.startTime\<close> reads a \<open>null\<close> start time as \<open>0\<close>.\<close>

definition completeChallenge ::
  "bool \<Rightarrow> int \<Rightarrow> challenger \<Rightarrow> challenger \<times> challenge_result option" where
  "completeChallenge success now s =
     (case currentChallenge s of
        None \<Rightarrow> (s, None)
      | Some c \<Rightarrow>
          (let res = \<lparr>r_id = ch_id c, r_name = ch_name c, r_success = success,
                       r_duration = now - (case startTime s of None \<Rightarrow> 0 | Some t \<Rightarrow> t)\<rparr>
           in (s\<lparr>isActive := False,
                  challengeHistory := challengeHistory s @ [res],
                  currentChallenge := None\<rparr>, Some res)))"

text \<open>The callback of the timeout armed by \<open>initChallengeState\<close>.\<close>

definition challenge_timeout_fires :: "int \<Rightarrow> challenger \<Rightarrow> challenger \<times> challenge_result option" where
  "challenge_timeout_fires now s =
     (if isActive s \<and> currentChallenge s \<noteq> None then completeChallenge False now s
      else (s, None))"

text \<open>\<open>LivenessChallenger.reset\<close>. It assigns fields only (\<open>blinkState\<close> is not among
  them) and cancels no timer.\<close>

definition reset_challenger :: "challenger \<Rightarrow> challenger" where
  "reset_challenger s =
     s\<lparr>currentChallenge := None, challengeHistory := [], isActive := False,
       startTime := None, landmarkHistory := [], blinkCount := 0,
       headTurnStates := no_turn, eyeMovementStates := no_turn,
       mouthOpenDetected := False, eyebrowRaiseDetected := False,
       baseline := no_baseline\<rparr>"

subsection \<open>Verifiers\<close>

definition addToHistory :: "landmarks \<Rightarrow> challenger \<Rightarrow> challenger" where
  "addToHistory lms s =
     s\<lparr>landmarkHistory := push_shift maxHistoryLength lms (landmarkHistory s)\<rparr>"

definition calculateDistance :: "point \<Rightarrow> point \<Rightarrow> real" where
  "calculateDistance point1 point2 =
     (let dx = fst point1 - fst point2; dy = snd point1 - snd point2
      in sqrt (dx * dx + dy * dy))"

text \<open>The \<open>dist\<close> of the dense branch of \<open>verifyBlink\<close>.\<close>

definition kp_dist :: "keypoint \<Rightarrow> keypoint \<Rightarrow> real" where
  "kp_dist p1 p2 = sqrt ((kp_x p1 - kp_x p2)\<^sup>2 + (kp_y p1 - kp_y p2)\<^sup>2)"

text \<open>The average Eye-Aspect-Ratio of a dense landmark set, as the dense branch of
  \<open>verifyBlink\<close> computes it. Reading a coordinate of a missing keypoint throws.\<close>

definition avgEAR :: "keypoint list \<Rightarrow> js_error + jsnum" where
  "avgEAR lm =
     (if 386 < length lm then
        (let leftEAR = js_div (kp_dist (lm ! 159) (lm ! 145)) (kp_dist (lm ! 33) (lm ! 133));
             rightEAR = js_div (kp_dist (lm ! 386) (lm ! 374)) (kp_dist (lm ! 362) (lm ! 263))
         in Inr (js_scale_down (js_add leftEAR rightEAR) 2))
      else Inl TypeError)"

text \<open>The inter-eye distance of a history entry, as the coarse branch reads it:
  \<open>calculateDistance(e[0], e[1])\<close>. An entry with fewer than two points makes
  \<open>calculateDistance\<close> read a coordinate of \<open>undefined\<close>, which throws; indexing a
  dense keypoint object by \<open>0\<close> gives \<open>undefined\<close>, so the distance is NaN.\<close>

fun eye_distance :: "landmarks \<Rightarrow> js_error + jsnum" where
  "eye_distance (Coarse ps) =
     (if 2 \<le> length ps then Inr (Fin (calculateDistance (ps ! 0) (ps ! 1)))
      else Inl TypeError)"
| "eye_distance (Dense ks) = (if 2 \<le> length ks then Inr NaN else Inl TypeError)"

text \<open>The blink pattern of the coarse branch; a comparison with NaN is false.\<close>

fun blink_pattern :: "jsnum \<Rightarrow> jsnum \<Rightarrow> jsnum \<Rightarrow> bool" where
  "blink_pattern (Fin cur) (Fin prev1) (Fin prev2) =
     (prev1 < cur * 0.85 \<and> prev2 > prev1 * 0.95)"
| "blink_pattern _ _ _ = False"

definition verifyBlink_coarse :: "landmarks \<Rightarrow> challenger \<Rightarrow> js_error + (bool \<times> challenger)" where
  "verifyBlink_coarse lms s =
     (let s1 = addToHistory lms s; h = landmarkHistory s1 in
      if length h < 3 then Inr (False, s1)
      else
        (case (eye_distance lms, eye_distance (h ! (length h - 2)),
               eye_distance (h ! (length h - 3))) of
           (Inr cur, Inr prev1, Inr prev2) \<Rightarrow>
             (let s2 = (if blink_pattern cur prev1 prev2
                        then s1\<lparr>blinkCount := blinkCount s1 + 1\<rparr> else s1)
              in Inr (blinkCount s2 \<ge> blinkRequired, s2))
         | _ \<Rightarrow> Inl TypeError))"

text \<open>\<open>verifyBlink\<close>. The result is the returned boolean with the state the call
  leaves, or the exception the call throws (the state a throwing call leaves is not
  followed further). In the dense branch a coarse landmark has
  no \<open>x\<close> and \<open>y\<close>: every distance is NaN and the comparison with \<open>0.15\<close> is false.\<close>

definition verifyBlink :: "detection_data \<Rightarrow> challenger \<Rightarrow> js_error + (bool \<times> challenger)" where
  "verifyBlink d s =
     (case landmarks d of
        None \<Rightarrow> (if isHighRes d then Inl TypeError else Inr (False, s))
      | Some lms \<Rightarrow>
          if isHighRes d \<and> lm_length lms > 10 then
            (case lms of
               Dense lm \<Rightarrow>
                 (case avgEAR lm of
                    Inl e \<Rightarrow> Inl e
                  | Inr ear \<Rightarrow>
                      (let s1 = (if js_lt ear 0.15
                                 then s\<lparr>blinkCount := blinkCount s + 1\<rparr> else s)
                       in Inr (blinkCount s1 \<ge> blinkRequired, s1)))
             | Coarse ps \<Rightarrow>
                 (if 386 < length ps then Inr (blinkCount s \<ge> blinkRequired, s)
                  else Inl TypeError))
          else if lm_length lms < 6 then Inr (False, s)
          else verifyBlink_coarse lms s)"



subsection \<open>Runs\<close>


text \<open>A call that throws ends the run: the exception leaves \<open>processDetection\<close>.\<close>

fun feed_blink :: "detection_data list \<Rightarrow> challenger \<Rightarrow> (js_error + bool \<times> nat) list" where
  "feed_blink [] s = []"
| "feed_blink (d # ds) s =
     (case verifyBlink d s of
        Inl e \<Rightarrow> [Inl e]
      | Inr (b, s') \<Rightarrow> Inr (b, blinkCount s') # feed_blink ds s')"





text \<open>A dense frame of 468 keypoints whose two eyes are one unit wide and open by
  \<open>v\<close>: the corners 33, 362 at \<open>(0, 0)\<close> and 133, 263 at \<open>(1, 0)\<close>, the lower lids 145,
  374 at \<open>(0, 0)\<close>, the upper lids 159, 386 at \<open>(0, v)\<close>.\<close>

definition eye_point :: "real \<Rightarrow> nat \<Rightarrow> keypoint" where
  "eye_point v i =
     (if i = 159 \<or> i = 386 then \<lparr>kp_x = 0, kp_y = v, kp_z = None\<rparr>
      else if i = 133 \<or> i = 263 then \<lparr>kp_x = 1, kp_y = 0, kp_z = None\<rparr>
      else \<lparr>kp_x = 0, kp_y = 0, kp_z = None\<rparr>)"

definition dense_frame :: "real \<Rightarrow> detection_data" where
  "dense_frame v =
     \<lparr>landmarks = Some (Dense (map (eye_point v) [0..<468])), isHighRes = True\<rparr>"

text \<open>The state in which a verifier runs: a challenger that has started the challenge.\<close>

definition started :: "challenge \<Rightarrow> challenger" where
  "started c = fst (startChallengeExplicit (Some c) 0 new_challenger)"

text \<open>Rounds of selection: \<open>startChallenge\<close> with the random number \<open>r\<close>, then
  \<open>completeChallenge\<close> with the outcome \<open>ok\<close>. The list holds the descriptor each
  \<open>startChallenge\<close> made current, \<open>None\<close> when it reported all challenges complete.\<close>

definition after_round :: "real \<Rightarrow> bool \<Rightarrow> int \<Rightarrow> challenger \<Rightarrow> challenger" where
  "after_round r ok now s = fst (completeChallenge ok now (fst (startChallenge r now s)))"

fun selections :: "(real \<times> bool) list \<Rightarrow> int \<Rightarrow> challenger \<Rightarrow> challenge option list" where
  "selections [] now s = []"
| "selections ((r, ok) # rs) now s =
     currentChallenge (fst (startChallenge r now s)) # selections rs now (after_round r ok now s)"

text \<open>The identifiers the history holds: the used set of \<open>getRandomChallenge\<close>.\<close>

definition used :: "challenger \<Rightarrow> string set" where
  "used s = set (map r_id (challengeHistory s))"

section \<open>DepthEstimator\<close>

text \<open>A rounded score that may be NaN: \<open>Math.round(NaN)\<close> is NaN, written \<open>None\<close>.\<close>

type_synonym jsint = "int option"

fun js_round_num :: "jsnum \<Rightarrow> jsint" where
  "js_round_num (Fin a) = Some (js_round a)"
| "js_round_num _ = None"

record depth_features =
  f_eyeDistance :: real
  f_noseProtrusion :: real
  f_noseRatio :: jsnum
  f_zVariance :: real
  f_timestamp :: int

record depth_analysis =
  da_isReal :: bool
  da_score :: jsint
  da_depthScore :: int
  da_consistencyScore :: jsint
  da_features :: depth_features
  da_keypoints :: "keypoint list"

text \<open>What \<open>estimateDepth\<close> returns when it returns an object: \<open>NoFaceDetected\<close> is
  \<open>{ isReal: false, score: 0, reason: 'No face detected' }\<close>.\<close>

datatype depth_result = NoFaceDetected | DepthAnalysis depth_analysis

fun depth_result_score :: "depth_result \<Rightarrow> jsint" where
  "depth_result_score NoFaceDetected = Some 0"
| "depth_result_score (DepthAnalysis a) = da_score a"

fun depth_result_isReal :: "depth_result \<Rightarrow> bool" where
  "depth_result_isReal NoFaceDetected = False"
| "depth_result_isReal (DepthAnalysis a) = da_isReal a"

record depth_estimator =
  de_isModelLoaded :: bool
  de_faceMesh :: bool
  de_depthHistory :: "depth_features list"
  de_cachedResult :: "depth_result option"
  de_frameCount :: nat

definition de_maxHistory :: nat where
  "de_maxHistory = 10"

text \<open>\<open>p.z || 0\<close>.\<close>

definition z_or_0 :: "keypoint \<Rightarrow> real" where
  "z_or_0 p = (case kp_z p of None \<Rightarrow> 0 | Some z \<Rightarrow> z)"

definition de_dist :: "keypoint \<Rightarrow> keypoint \<Rightarrow> real" where
  "de_dist p1 p2 =
     (let dx = kp_x p1 - kp_x p2; dy = kp_y p1 - kp_y p2; dz = z_or_0 p1 - z_or_0 p2
      in sqrt (dx * dx + dy * dy + dz * dz))"

text \<open>\<open>extractFeaturesFast\<close> reads the keypoints 1, 33, 263, 152 and 10; a missing one
  makes the first property read throw.\<close>

definition extractFeaturesFast :: "int \<Rightarrow> keypoint list \<Rightarrow> js_error + depth_features" where
  "extractFeaturesFast now keypoints =
     (if 263 < length keypoints then
        (let nose = keypoints ! 1; leftEye = keypoints ! 33; rightEye = keypoints ! 263;
             chin = keypoints ! 152; forehead = keypoints ! 10;
             eyeDist = de_dist leftEye rightEye;
             eyeCenterZ = (z_or_0 leftEye + z_or_0 rightEye) * 0.5;
             noseProtrusion = \<bar>z_or_0 nose - eyeCenterZ\<bar>;
             noseRatio = js_div noseProtrusion eyeDist;
             zValues = [z_or_0 nose, z_or_0 leftEye, z_or_0 rightEye, z_or_0 chin,
                        z_or_0 forehead];
             zMean = sum_list zValues / 5;
             zVariance = sqrt (sum_list (map (\<lambda>z. (z - zMean)\<^sup>2) zValues) / 5)
         in Inr \<lparr>f_eyeDistance = eyeDist, f_noseProtrusion = noseProtrusion,
                 f_noseRatio = noseRatio, f_zVariance = zVariance, f_timestamp = now\<rparr>)
      else Inl TypeError)"

definition calculateScoreFast :: "depth_features \<Rightarrow> real" where
  "calculateScoreFast f =
     (let s1 = (if js_gt (f_noseRatio f) 0.05 then 0.25 else 0);
          s2 = s1 + (if js_gt (f_noseRatio f) 0.10 then 0.15 else 0);
          s3 = s2 + (if f_zVariance f > 0.01 then 0.20 else 0);
          s4 = s3 + (if f_zVariance f > 0.03 then 0.10 else 0);
          s5 = s4 + 0.30
      in min s5 1.0)"

text \<open>\<open>xs.slice(-k)\<close>: the last \<open>k\<close> elements, all of them when there are fewer.\<close>

definition slice_last :: "nat \<Rightarrow> 'a list \<Rightarrow> 'a list" where
  "slice_last k xs = drop (length xs - k) xs"

fun the_fin :: "jsnum \<Rightarrow> real option" where
  "the_fin (Fin a) = Some a"
| "the_fin _ = None"

definition mean_of :: "real list \<Rightarrow> real" where
  "mean_of xs = sum_list xs / real (length xs)"

definition variance_of :: "real list \<Rightarrow> real" where
  "variance_of xs = sum_list (map (\<lambda>v. (v - mean_of xs)\<^sup>2) xs) / real (length xs)"

text \<open>\<open>calculateConsistencyFast\<close>. A nose ratio that is not finite makes the variance
  NaN, both comparisons false and \<open>Math.max(0.3, NaN)\<close> NaN.\<close>

definition calculateConsistencyFast :: "depth_features list \<Rightarrow> jsnum" where
  "calculateConsistencyFast h =
     (if length h < 3 then Fin 0.5
      else
        (let noseRatios = map f_noseRatio (slice_last 5 h) in
         if list_all (\<lambda>v. the_fin v \<noteq> None) noseRatios then
           (let variance = variance_of (map (\<lambda>v. the (the_fin v)) noseRatios) in
            if variance > 0.001 \<and> variance < 0.05 then Fin 0.8
            else Fin (max 0.3 (0.7 - variance * 10)))
         else NaN))"

definition de_addToHistory :: "depth_features \<Rightarrow> depth_features list \<Rightarrow> depth_features list" where
  "de_addToHistory features h = push_shift de_maxHistory features h"

text \<open>\<open>estimateDepth\<close>. \<open>faces\<close> is what the landmark model answers for the frame: the
  keypoints of each face found, or an exception. Whatever is thrown inside the
  \<open>try\<close> block is caught and answered with the cached result.\<close>

definition estimateDepth ::
  "int \<Rightarrow> js_error + keypoint list list \<Rightarrow> depth_estimator \<Rightarrow> depth_result option \<times> depth_estimator" where
  "estimateDepth now faces s =
     (if \<not> de_isModelLoaded s \<or> \<not> de_faceMesh s then (de_cachedResult s, s)
      else
        (let s1 = s\<lparr>de_frameCount := de_frameCount s + 1\<rparr> in
         if de_frameCount s1 mod 2 \<noteq> 0 \<and> de_cachedResult s1 \<noteq> None
         then (de_cachedResult s1, s1)
         else
           (case faces of
              Inl e \<Rightarrow> (de_cachedResult s1, s1)
            | Inr fs \<Rightarrow>
                (case fs of
                   [] \<Rightarrow> (Some NoFaceDetected, s1)
                 | face # _ \<Rightarrow>
                     (case extractFeaturesFast now face of
                        Inl e \<Rightarrow> (de_cachedResult s1, s1)
                      | Inr features \<Rightarrow>
                          (let depthScore = calculateScoreFast features;
                               s2 = s1\<lparr>de_depthHistory :=
                                      de_addToHistory features (de_depthHistory s1)\<rparr>;
                               consistency = calculateConsistencyFast (de_depthHistory s2);
                               combined = js_add (Fin (depthScore * 0.6))
                                            (case consistency of Fin c \<Rightarrow> Fin (c * 0.4) | v \<Rightarrow> v);
                               result = DepthAnalysis
                                 \<lparr>da_isReal = js_gt combined 0.6,
                                  da_score = js_round_num
                                    (case combined of Fin c \<Rightarrow> Fin (c * 100) | v \<Rightarrow> v),
                                  da_depthScore = js_round (depthScore * 100),
                                  da_consistencyScore = js_round_num
                                    (case consistency of Fin c \<Rightarrow> Fin (c * 100) | v \<Rightarrow> v),
                                  da_features = features,
                                  da_keypoints = face\<rparr>
                           in (Some result, s2\<lparr>de_cachedResult := Some result\<rparr>)))))))"

definition reset_depth :: "depth_estimator \<Rightarrow> depth_estimator" where
  "reset_depth s = s\<lparr>de_depthHistory := [], de_cachedResult := None, de_frameCount := 0\<rparr>"

section \<open>PassiveLiveness\<close>

text \<open>The result of \<open>PassiveLiveness.analyze\<close> as far as the anti-spoofing module and
  the application read it. The pixel analysis that produces the scores is not
  modelled; the scores are taken as finite rounded percentages.\<close>

record passive_result =
  pr_moireScore :: int
  pr_temporalScore :: int
  pr_overallScore :: int

definition maxFrames :: nat where
  "maxFrames = 15"

text \<open>\<open>addFrameToHistory\<close>. \<open>simplified\<close> is the 20 by 20 grid the method samples from
  the frame before it stores it; the sampling is not modelled.\<close>

definition addFrameToHistory :: "'f \<Rightarrow> 'f list \<Rightarrow> 'f list" where
  "addFrameToHistory simplified frameHistory = push_shift maxFrames simplified frameHistory"

text \<open>\<open>scoreTemporalFast\<close>. A stored frame is a \<open>Float32Array\<close> of 400 brightness
  values, read here as a function on the indices below 400 with finite values. The
  method compares the newest stored frame with up to four frames before it.\<close>

definition frame_diff :: "(nat \<Rightarrow> real) \<Rightarrow> (nat \<Rightarrow> real) \<Rightarrow> real" where
  "frame_diff current f = sum_list (map (\<lambda>j. \<bar>current j - f j\<bar>) [0..<400]) / 400"

definition scoreTemporalFast :: "(nat \<Rightarrow> real) list \<Rightarrow> real" where
  "scoreTemporalFast frameHistory =
     (if length frameHistory < 3 then 0.7
      else
        (let recent = slice_last 5 frameHistory;
             current = recent ! (length recent - 1);
             totalDiff = sum_list (map (frame_diff current) (take (length recent - 1) recent));
             avgDiff = totalDiff / real (length recent - 1)
         in if avgDiff \<ge> 2 \<and> avgDiff \<le> 15 then 0.7 + avgDiff / 50
            else if avgDiff < 2 then 0.2 + avgDiff * 0.2
            else max 0.3 (1.0 - (avgDiff - 15) / 40)))"

section \<open>AntiSpoofing\<close>

record spoof_scores =
  photoScore :: real
  screenScore :: real
  maskScore :: real
  deepfakeScore :: real
  cutoutScore :: real

record spoof_result =
  sr_photoScore :: int
  sr_screenScore :: int
  sr_maskScore :: int
  sr_deepfakeScore :: int
  sr_cutoutScore :: int
  sr_temporalBonus :: int
  sr_overallScore :: int
  sr_isReal :: bool
  sr_attacksDetected :: "string list"
  sr_confidence :: string

record anti_spoofing =
  as_isReady :: bool
  as_analysisHistory :: "spoof_scores list"
  as_lastResult :: "spoof_result option"
  as_cachedResult :: "spoof_result option"
  as_frameCount :: nat

definition as_maxHistory :: nat where
  "as_maxHistory = 10"

text \<open>What the pixel loops of \<open>detectPhotoFast\<close> and \<open>detectCutoutFast\<close> leave behind
  for a frame: the variance of the quadrant brightness, the ratio of skin-coloured
  samples, the average sharpness, and the two edge counters. The loops themselves are
  not modelled, and the three statistics are taken as finite.\<close>

record image_stats =
  im_variance :: real
  im_skinRatio :: real
  im_avgSharpness :: real
  im_rectangularEdges :: nat
  im_totalEdges :: nat

text \<open>\<open>depthResult?.depthScore\<close> is truthy for a depth analysis with a non-zero depth
  score; the no-face result has no such property.\<close>

fun truthy_depthScore :: "depth_result option \<Rightarrow> int option" where
  "truthy_depthScore (Some (DepthAnalysis a)) =
     (if da_depthScore a \<noteq> 0 then Some (da_depthScore a) else None)"
| "truthy_depthScore _ = None"

definition detectPhotoFast :: "image_stats \<Rightarrow> depth_result option \<Rightarrow> real" where
  "detectPhotoFast im depthResult =
     (let s0 = (case truthy_depthScore depthResult of
                  None \<Rightarrow> 0.5
                | Some ds \<Rightarrow> 0.3 + (real_of_int ds / 100) * 0.5);
          s1 = (if im_variance im > 50 \<and> im_variance im < 500 then s0 + 0.1 else s0);
          s2 = (if im_skinRatio im > 0.3 then s1 + 0.2 else s1);
          s3 = (if im_avgSharpness im > 3 \<and> im_avgSharpness im < 20 then s2 + 0.1 else s2)
      in min s3 1.0)"

definition detectScreenFast :: "passive_result option \<Rightarrow> real" where
  "detectScreenFast passiveResult =
     (case passiveResult of
        None \<Rightarrow> 0.5
      | Some p \<Rightarrow>
          (let normalized = real_of_int (pr_moireScore p) / 100
           in if normalized < 0.6 then normalized * 0.5 else normalized))"

fun features_of :: "depth_result option \<Rightarrow> depth_features option" where
  "features_of (Some (DepthAnalysis a)) = Some (da_features a)"
| "features_of _ = None"

definition detectMaskFast :: "depth_result option \<Rightarrow> real" where
  "detectMaskFast depthResult =
     (case features_of depthResult of
        None \<Rightarrow> 0.5
      | Some f \<Rightarrow>
          (let s1 = (if f_zVariance f > 0.05 then 0.5 + 0.25 else 0.5);
               s2 = (if js_gt (f_noseRatio f) 0.08 \<and> js_lt (f_noseRatio f) 0.25
                     then s1 + 0.25 else s1)
           in min s2 1.0))"

definition detectDeepfakeFast :: "passive_result option \<Rightarrow> real" where
  "detectDeepfakeFast passiveResult =
     (case passiveResult of
        None \<Rightarrow> 0.5
      | Some p \<Rightarrow> real_of_int (pr_temporalScore p) / 100)"

definition detectCutoutFast :: "image_stats \<Rightarrow> real" where
  "detectCutoutFast im =
     (if im_totalEdges im > 0
      then 1.0 - min ((real (im_rectangularEdges im) / real (im_totalEdges im)) * 2) 0.6
      else 0.7)"

definition as_calculateTemporalFast :: "spoof_scores list \<Rightarrow> real" where
  "as_calculateTemporalFast h =
     (if length h < 3 then 0.5
      else
        (let variance = variance_of (map photoScore (slice_last 5 h))
         in max 0.3 (1.0 - min (variance / 0.2) 0.5)))"

definition as_addToHistory :: "spoof_scores \<Rightarrow> spoof_scores list \<Rightarrow> spoof_scores list" where
  "as_addToHistory result h = push_shift as_maxHistory result h"

text \<open>The object \<open>analyze\<close> builds from the five sub-scores and the temporal bonus. The
  weighted sum is taken over the reals: where the exact sum times 100 is a tie or a
  threshold (70, 80, 85), the double sum of the program may round to the neighbouring
  integer or fall on the other side.\<close>

definition fuse :: "spoof_scores \<Rightarrow> real \<Rightarrow> spoof_result" where
  "fuse sc temporalBonus =
     (let overall = js_round
            ((photoScore sc * 0.25 + screenScore sc * 0.25 + maskScore sc * 0.20 +
              deepfakeScore sc * 0.15 + cutoutScore sc * 0.15 + temporalBonus * 0.10) * 100)
      in \<lparr>sr_photoScore = js_round (photoScore sc * 100),
          sr_screenScore = js_round (screenScore sc * 100),
          sr_maskScore = js_round (maskScore sc * 100),
          sr_deepfakeScore = js_round (deepfakeScore sc * 100),
          sr_cutoutScore = js_round (cutoutScore sc * 100),
          sr_temporalBonus = js_round (temporalBonus * 100),
          sr_overallScore = overall,
          sr_isReal = (overall > 80),
          sr_attacksDetected =
            (if photoScore sc < 0.5 then [''PHOTO_ATTACK''] else []) @
            (if screenScore sc < 0.5 then [''SCREEN_REPLAY''] else []) @
            (if maskScore sc < 0.5 then [''MASK_DETECTED''] else []) @
            (if deepfakeScore sc < 0.5 then [''DEEPFAKE_SUSPECTED''] else []),
          sr_confidence =
            (if overall > 85 then ''high'' else if overall > 70 then ''medium'' else ''low'')\<rparr>)"

definition sub_scores ::
  "image_stats \<Rightarrow> depth_result option \<Rightarrow> passive_result option \<Rightarrow> spoof_scores" where
  "sub_scores im depthResult passiveResult =
     \<lparr>photoScore = detectPhotoFast im depthResult,
      screenScore = detectScreenFast passiveResult,
      maskScore = detectMaskFast depthResult,
      deepfakeScore = detectDeepfakeFast passiveResult,
      cutoutScore = detectCutoutFast im\<rparr>"

text \<open>\<open>AntiSpoofing.analyze\<close>; \<open>im\<close> stands for the frame drawn on the canvas.\<close>

definition as_analyze ::
  "image_stats \<Rightarrow> depth_result option \<Rightarrow> passive_result option \<Rightarrow> anti_spoofing
     \<Rightarrow> spoof_result option \<times> anti_spoofing" where
  "as_analyze im depthResult passiveResult s =
     (if \<not> as_isReady s then (as_cachedResult s, s)
      else
        (let s1 = s\<lparr>as_frameCount := as_frameCount s + 1\<rparr> in
         if as_frameCount s1 mod 3 \<noteq> 0 \<and> as_cachedResult s1 \<noteq> None
         then (as_cachedResult s1, s1)
         else
           (let sc = sub_scores im depthResult passiveResult;
                s2 = s1\<lparr>as_analysisHistory := as_addToHistory sc (as_analysisHistory s1)\<rparr>;
                temporalBonus = as_calculateTemporalFast (as_analysisHistory s2);
                result = fuse sc temporalBonus
            in (Some result, s2\<lparr>as_lastResult := Some result, as_cachedResult := Some result\<rparr>))))"

text \<open>The state after the constructor and \<open>initialize\<close>.\<close>

definition ready_anti_spoofing :: anti_spoofing where
  "ready_anti_spoofing = \<lparr>as_isReady = True, as_analysisHistory = [], as_lastResult = None,
     as_cachedResult = None, as_frameCount = 0\<rparr>"

section \<open>EyeReflection\<close>

record reflection_entry =
  re_specularScore :: real
  re_consistencyScore :: real

record eye_result =
  er_isReal :: bool
  er_score :: int
  er_consistencyScore :: int
  er_specularScore :: int
  er_temporalScore :: int
  er_issues :: "string list"

record eye_reflection =
  ey_isReady :: bool
  ey_reflectionHistory :: "reflection_entry list"
  ey_lastResult :: "eye_result option"
  ey_cachedResult :: "eye_result option"
  ey_frameCount :: nat

definition ey_maxHistory :: nat where
  "ey_maxHistory = 8"

text \<open>\<open>analyzeEyeRegionFast\<close>, from the two counters its sampling loop leaves: the
  bright pixels and all pixels of the window that lie inside the image. The caller
  has checked that the keypoint of the eye exists.\<close>

definition analyzeEyeRegionFast :: "nat \<times> nat \<Rightarrow> real" where
  "analyzeEyeRegionFast counts =
     (let brightPixels = fst counts; totalPixels = snd counts in
      if totalPixels = 0 then 0.5
      else
        (let brightRatio = real brightPixels / real totalPixels in
         if brightRatio > 0.01 \<and> brightRatio < 0.15 then 0.6 + brightRatio * 2
         else if brightRatio > 0.15 then 0.4 else 0.3 + brightRatio * 10))"

definition ey_calculateTemporalFast :: "reflection_entry list \<Rightarrow> real" where
  "ey_calculateTemporalFast h =
     (if length h < 3 then 0.5
      else
        (let variance = variance_of (map re_specularScore (slice_last 5 h))
         in if variance > 0.001 \<and> variance < 0.05 then 0.8
            else max 0.3 (0.7 - variance * 5)))"

definition ey_addToHistory :: "reflection_entry \<Rightarrow> reflection_entry list \<Rightarrow> reflection_entry list" where
  "ey_addToHistory result h = push_shift ey_maxHistory result h"

text \<open>\<open>EyeReflection.analyze\<close>. \<open>keypoints\<close> is \<open>None\<close> for a missing argument;
  \<open>leftCounts\<close> and \<open>rightCounts\<close> stand for the frame around the two eyes. The
  comparisons are over the reals: two eye scores whose exact difference is 0.3 are not
  consistent here, while their double difference may be just below the double 0.3.\<close>

definition ey_analyze ::
  "keypoint list option \<Rightarrow> nat \<times> nat \<Rightarrow> nat \<times> nat \<Rightarrow> eye_reflection
     \<Rightarrow> eye_result option \<times> eye_reflection" where
  "ey_analyze keypoints leftCounts rightCounts s =
     (if \<not> ey_isReady s \<or> keypoints = None \<or> length (the keypoints) < 400
      then (ey_cachedResult s, s)
      else
        (let s1 = s\<lparr>ey_frameCount := ey_frameCount s + 1\<rparr> in
         if ey_frameCount s1 mod 3 \<noteq> 0 \<and> ey_cachedResult s1 \<noteq> None
         then (ey_cachedResult s1, s1)
         else
           (let leftEyeScore = analyzeEyeRegionFast leftCounts;
                rightEyeScore = analyzeEyeRegionFast rightCounts;
                specularScore = (leftEyeScore + rightEyeScore) * 0.5;
                consistencyScore = (if \<bar>leftEyeScore - rightEyeScore\<bar> < 0.3 then 0.8 else 0.5);
                s2 = s1\<lparr>ey_reflectionHistory :=
                       ey_addToHistory
                         \<lparr>re_specularScore = specularScore,
                          re_consistencyScore = consistencyScore\<rparr>
                         (ey_reflectionHistory s1)\<rparr>;
                temporalScore = ey_calculateTemporalFast (ey_reflectionHistory s2);
                overallScore = specularScore * 0.5 + consistencyScore * 0.25 +
                               temporalScore * 0.25;
                result = \<lparr>er_isReal = (overallScore > 0.70),
                          er_score = js_round (overallScore * 100),
                          er_consistencyScore = js_round (consistencyScore * 100),
                          er_specularScore = js_round (specularScore * 100),
                          er_temporalScore = js_round (temporalScore * 100),
                          er_issues = (if specularScore < 0.5
                                       then [''Missing eye reflections''] else [])\<rparr>
            in (Some result, s2\<lparr>ey_lastResult := Some result, ey_cachedResult := Some result\<rparr>))))"

section \<open>MicroExpression\<close>

text \<open>A stored key point: \<open>{x, y, z}\<close> with \<open>0\<close> for whatever is missing.\<close>

record key_point =
  px :: real
  py :: real
  pz :: real

record history_entry =
  he_keypoints :: "key_point list"
  he_timestamp :: int

record micro_result =
  mr_isReal :: bool
  mr_score :: int
  mr_message :: "string option"
  mr_naturalness :: "int option"
  mr_involuntaryScore :: "int option"
  mr_coordinationScore :: "int option"
  mr_microMovements :: nat
  mr_issues :: "string list option"

record micro_expression =
  me_isReady :: bool
  me_landmarkHistory :: "history_entry list"
  me_lastResult :: "micro_result option"
  me_cachedResult :: "micro_result option"
  me_frameCount :: nat

definition me_maxHistory :: nat where
  "me_maxHistory = 20"

definition keyIndices :: "nat list" where
  "keyIndices = [1, 33, 263, 61, 291]"

text \<open>\<open>{ x: keypoints[idx]?.x || 0, ... }\<close>.\<close>

definition simplify_point :: "keypoint list \<Rightarrow> nat \<Rightarrow> key_point" where
  "simplify_point keypoints idx =
     (if idx < length keypoints
      then \<lparr>px = kp_x (keypoints ! idx), py = kp_y (keypoints ! idx),
            pz = z_or_0 (keypoints ! idx)\<rparr>
      else \<lparr>px = 0, py = 0, pz = 0\<rparr>)"

definition me_addToHistory :: "int \<Rightarrow> keypoint list \<Rightarrow> history_entry list \<Rightarrow> history_entry list" where
  "me_addToHistory now keypoints h =
     push_shift me_maxHistory
       \<lparr>he_keypoints = map (simplify_point keypoints) keyIndices, he_timestamp = now\<rparr> h"

text \<open>The planar displacement of key point \<open>i\<close> between two entries.\<close>

definition movement :: "key_point list \<Rightarrow> key_point list \<Rightarrow> nat \<Rightarrow> real" where
  "movement cur prev i =
     (let dx = px (cur ! i) - px (prev ! i); dy = py (cur ! i) - py (prev ! i)
      in sqrt (dx * dx + dy * dy))"

text \<open>\<open>analyzeMovementsFast\<close>: the pair \<open>(total, max)\<close>.\<close>

definition analyzeMovementsFast :: "history_entry list \<Rightarrow> real \<times> real" where
  "analyzeMovementsFast h =
     (if length h < 2 then (0, 0)
      else
        (let cur = he_keypoints (h ! (length h - 1));
             prev = he_keypoints (h ! (length h - 2));
             ms = map (movement cur prev) [0..<length cur]
         in (sum_list ms / real (length cur), fold max ms 0)))"

definition evaluateNaturalnessFast :: "real \<times> real \<Rightarrow> real" where
  "evaluateNaturalnessFast movements =
     (let avg = fst movements in
      if avg > 0.05 \<and> avg < 3.0 then 0.6 + avg / 10
      else if avg < 0.05 then 0.3 + avg * 6
      else max 0.3 (1.0 - (avg - 3) / 10))"

text \<open>Whether eye point \<open>j\<close> twitches over three consecutive entries.\<close>

definition twitch :: "key_point list \<Rightarrow> key_point list \<Rightarrow> key_point list \<Rightarrow> nat \<Rightarrow> bool" where
  "twitch prev mid cur j =
     (let move1 = py (mid ! j) - py (prev ! j); move2 = py (cur ! j) - py (mid ! j)
      in \<bar>move1\<bar> > 0.3 \<and> \<bar>move2\<bar> > 0.3 \<and> (move1 > 0) \<noteq> (move2 > 0))"

definition detectMicroMovementsFast :: "history_entry list \<Rightarrow> real" where
  "detectMicroMovementsFast h =
     (if length h < 8 then 0.5
      else
        (let recent = slice_last 10 h;
             twitches = length
               (filter (\<lambda>(i, j). twitch (he_keypoints (recent ! (i - 2)))
                                   (he_keypoints (recent ! (i - 1)))
                                   (he_keypoints (recent ! i)) j)
                  (List.product [2..<length recent] [1, 2]));
             twitchRatio = real twitches / real ((length recent - 2) * 2)
         in if twitchRatio > 0.01 \<and> twitchRatio < 0.15 then 0.6 + twitchRatio * 2
            else if twitchRatio < 0.01 then 0.3 + twitchRatio * 30
            else max 0.3 (1.0 - twitchRatio * 3)))"

definition analyzeCoordinationFast :: "history_entry list \<Rightarrow> real" where
  "analyzeCoordinationFast h =
     (if length h < 3 then 0.5
      else
        (let latest = slice_last 3 h;
             eyeCorrelation = sum_list
               (map (\<lambda>i. let cur = he_keypoints (latest ! i);
                              prev = he_keypoints (latest ! (i - 1));
                              leftMove = \<bar>py (cur ! 1) - py (prev ! 1)\<bar>;
                              rightMove = \<bar>py (cur ! 2) - py (prev ! 2)\<bar>
                          in if \<bar>leftMove - rightMove\<bar> < 1.0 then 0.5 else 0)
                  [1..<length latest])
         in 0.5 + min (eyeCorrelation / real (length latest - 1)) 0.5))"

definition countMicroMovementsFast :: "history_entry list \<Rightarrow> nat" where
  "countMicroMovementsFast h =
     (if length h < 3 then 0
      else
        (let recent = slice_last 5 h
         in length
              (filter (\<lambda>(i, j). let move = movement (he_keypoints (recent ! i))
                                              (he_keypoints (recent ! (i - 1))) j
                                 in move > 0.2 \<and> move < 2.0)
                 (List.product [1..<length recent] [0..<5]))))"

text \<open>The object returned while fewer than five entries are stored.\<close>

definition gathering :: micro_result where
  "gathering = \<lparr>mr_isReal = True, mr_score = 50, mr_message = Some ''Gathering data...'',
     mr_naturalness = None, mr_involuntaryScore = None, mr_coordinationScore = None,
     mr_microMovements = 0, mr_issues = None\<rparr>"

text \<open>\<open>MicroExpression.analyze\<close>; \<open>now\<close> is the \<open>Date.now()\<close> of \<open>addToHistory\<close>.\<close>

definition me_analyze ::
  "int \<Rightarrow> keypoint list option \<Rightarrow> micro_expression \<Rightarrow> micro_result option \<times> micro_expression" where
  "me_analyze now keypoints s =
     (if \<not> me_isReady s \<or> keypoints = None \<or> length (the keypoints) < 400
      then (me_cachedResult s, s)
      else
        (let s1 = s\<lparr>me_frameCount := me_frameCount s + 1\<rparr> in
         if me_frameCount s1 mod 2 \<noteq> 0 \<and> me_cachedResult s1 \<noteq> None
         then (me_cachedResult s1, s1)
         else
           (let s2 = s1\<lparr>me_landmarkHistory :=
                       me_addToHistory now (the keypoints) (me_landmarkHistory s1)\<rparr>;
                h = me_landmarkHistory s2
            in if length h < 5 then (Some gathering, s2)
               else
                 (let movements = analyzeMovementsFast h;
                      naturalness = evaluateNaturalnessFast movements;
                      involuntaryScore = detectMicroMovementsFast h;
                      coordinationScore = analyzeCoordinationFast h;
                      overallScore = naturalness * 0.35 + involuntaryScore * 0.35 +
                                     coordinationScore * 0.30;
                      result = \<lparr>mr_isReal = (overallScore > 0.7),
                                mr_score = js_round (overallScore * 100),
                                mr_message = None,
                                mr_naturalness = Some (js_round (naturalness * 100)),
                                mr_involuntaryScore = Some (js_round (involuntaryScore * 100)),
                                mr_coordinationScore = Some (js_round (coordinationScore * 100)),
                                mr_microMovements = countMicroMovementsFast h,
                                mr_issues = Some
                                  ((if naturalness < 0.5 then [''Unnatural movement''] else []) @
                                   (if involuntaryScore < 0.5
                                    then [''Missing micro-movements''] else []))\<rparr>
                  in (Some result,
                      s2\<lparr>me_lastResult := Some result, me_cachedResult := Some result\<rparr>)))))"

definition me_initialize :: "micro_expression \<Rightarrow> micro_expression" where
  "me_initialize s = s\<lparr>me_isReady := True\<rparr>"

definition me_reset :: "micro_expression \<Rightarrow> micro_expression" where
  "me_reset s = s\<lparr>me_landmarkHistory := [], me_lastResult := None,
     me_cachedResult := None, me_frameCount := 0\<rparr>"

text \<open>The state the constructor leaves.\<close>

definition new_micro_expression :: micro_expression where
  "new_micro_expression = \<lparr>me_isReady = False, me_landmarkHistory = [],
     me_lastResult = None, me_cachedResult = None, me_frameCount = 0\<rparr>"

section \<open>LivenessApp: the security score set and the final verdict\<close>

text \<open>\<open>LivenessApp.securityScores\<close> (main.js). A field holds a JavaScript number:
  every write is a literal \<open>0\<close> or the result of \<open>Math.round\<close>, an integer or, for the
  depth score, possibly NaN (\<open>None\<close>).\<close>

record security_scores =
  active :: jsint
  "passive" :: jsint
  antiSpoof :: jsint
  depth :: jsint
  eyeReflection :: jsint
  microExpression :: jsint

text \<open>The part of the \<open>LivenessApp\<close> object that finalization reads and writes.
  \<open>passiveAnalysisInterval\<close> is the handle of the passive-analysis interval timer,
  \<open>None\<close> for \<open>null\<close>.\<close>

record liveness_app =
  livenessChallenger :: challenger
  isVerifying :: bool
  completedChallenges :: nat
  passiveAnalysisInterval :: "nat option"
  securityScores :: security_scores










definition stopPassiveAnalysis :: "liveness_app \<Rightarrow> liveness_app" where
  "stopPassiveAnalysis app =
     (if passiveAnalysisInterval app \<noteq> None
      then app\<lparr>passiveAnalysisInterval := None\<rparr> else app)"



text \<open>\<open>if (depthResult) this.securityScores.depth = depthResult.score\<close> and
  \<open>if (antiSpoofResult) this.securityScores.antiSpoof = antiSpoofResult.overallScore\<close>,
  the statements of the passive-analysis tick that store the depth score and the
  anti-spoofing score.\<close>

definition store_depth :: "depth_result option \<Rightarrow> security_scores \<Rightarrow> security_scores" where
  "store_depth depthResult sc =
     (case depthResult of
        None \<Rightarrow> sc
      | Some r \<Rightarrow> sc\<lparr>depth := depth_result_score r\<rparr>)"

definition store_antiSpoof :: "spoof_result option \<Rightarrow> security_scores \<Rightarrow> security_scores" where
  "store_antiSpoof antiSpoofResult sc =
     (case antiSpoofResult of
        None \<Rightarrow> sc
      | Some r \<Rightarrow> sc\<lparr>antiSpoof := Some (sr_overallScore r)\<rparr>)"

definition zero_scores :: security_scores where
  "zero_scores = \<lparr>active = Some 0, passive = Some 0, antiSpoof = Some 0, depth = Some 0,
     eyeReflection = Some 0, microExpression = Some 0\<rparr>"

text \<open>\<open>resetApp\<close>, on the fields of the model. The analyzers are reset by their own
  \<open>reset\<close> methods.\<close>

definition resetApp :: "liveness_app \<Rightarrow> liveness_app" where
  "resetApp app =
     (stopPassiveAnalysis (app\<lparr>livenessChallenger := reset_challenger (livenessChallenger app)\<rparr>))
       \<lparr>isVerifying := False, completedChallenges := 0, securityScores := zero_scores\<rparr>"

definition new_app :: liveness_app where
  "new_app = \<lparr>livenessChallenger = new_challenger, isVerifying = False,
     completedChallenges = 0, passiveAnalysisInterval = None, securityScores = zero_scores\<rparr>"







section \<open>Timers\<close>

text \<open>
  The timers live in the JavaScript runtime, not in the objects of the program. The
  runtime is a table from handles to pending timers; \<open>setTimeout\<close> and \<open>setInterval\<close>
  add an entry and return its handle, \<open>clearTimeout\<close> and \<open>clearInterval\<close> remove the
  entry of a handle, and a timeout leaves the table when it fires. A timer is named by
  the callback it runs: the timeout of a challenge (with the time it is due), the
  progress interval of a challenge, the passive-analysis interval.
\<close>

datatype timer = ChallengeTimeout int | ProgressInterval | PassiveInterval

record world =
  w_app :: liveness_app
  w_timers :: "(nat \<times> timer) list"
  w_nextHandle :: nat

definition set_timer :: "timer \<Rightarrow> world \<Rightarrow> nat \<times> world" where
  "set_timer t w =
     (w_nextHandle w,
      w\<lparr>w_timers := w_timers w @ [(w_nextHandle w, t)], w_nextHandle := w_nextHandle w + 1\<rparr>)"

definition clear_timer :: "nat \<Rightarrow> world \<Rightarrow> world" where
  "clear_timer h w = w\<lparr>w_timers := filter (\<lambda>e. fst e \<noteq> h) (w_timers w)\<rparr>"

text \<open>The timers \<open>initChallengeState\<close> asks for, entered into the table.\<close>

fun arm :: "int \<Rightarrow> timer_request list \<Rightarrow> world \<Rightarrow> world" where
  "arm now [] w = w"
| "arm now (SetTimeout d # rs) w = arm now rs (snd (set_timer (ChallengeTimeout (now + d)) w))"
| "arm now (SetInterval d # rs) w = arm now rs (snd (set_timer ProgressInterval w))"

text \<open>\<open>startPassiveAnalysis\<close> stores the handle of its interval.\<close>

definition w_startPassiveAnalysis :: "world \<Rightarrow> world" where
  "w_startPassiveAnalysis w =
     (let (h, w1) = set_timer PassiveInterval w
      in w1\<lparr>w_app := (w_app w1)\<lparr>passiveAnalysisInterval := Some h\<rparr>\<rparr>)"

definition w_startChallenge :: "real \<Rightarrow> int \<Rightarrow> world \<Rightarrow> world" where
  "w_startChallenge r now w =
     (let (c, out) = startChallenge r now (livenessChallenger (w_app w));
          w1 = w\<lparr>w_app := (w_app w)\<lparr>livenessChallenger := c\<rparr>\<rparr>
      in case out of
           Started (Inr reqs) \<Rightarrow> arm now reqs w1
         | _ \<Rightarrow> w1)"

text \<open>\<open>resetApp\<close> with its effect on the runtime: the only \<open>clearInterval\<close> it reaches
  is the one of \<open>stopPassiveAnalysis\<close>.\<close>

definition w_resetApp :: "world \<Rightarrow> world" where
  "w_resetApp w =
     (let w1 = (case passiveAnalysisInterval (w_app w) of
                  None \<Rightarrow> w
                | Some h \<Rightarrow> clear_timer h w)
      in w1\<lparr>w_app := resetApp (w_app w1)\<rparr>)"

text \<open>The runtime runs the callback of the timer with handle \<open>h\<close> at time \<open>now\<close>. The
  second component is the result a challenge timeout passes to \<open>onComplete\<close>.\<close>

definition w_fire :: "nat \<Rightarrow> int \<Rightarrow> world \<Rightarrow> world \<times> challenge_result option" where
  "w_fire h now w =
     (case map_of (w_timers w) h of
        None \<Rightarrow> (w, None)
      | Some (ChallengeTimeout due) \<Rightarrow>
          (let w1 = clear_timer h w;
               (c, res) = challenge_timeout_fires now (livenessChallenger (w_app w1))
           in (w1\<lparr>w_app := (w_app w1)\<lparr>livenessChallenger := c\<rparr>\<rparr>, res))
      | Some ProgressInterval \<Rightarrow>
          (if \<not> isActive (livenessChallenger (w_app w)) then (clear_timer h w, None)
           else (w, None))
      | Some PassiveInterval \<Rightarrow> (w, None))"

definition new_world :: world where
  "new_world = \<lparr>w_app = new_app, w_timers = [], w_nextHandle = 0\<rparr>"

text \<open>
  Two attempts. The first starts its passive analysis and, at time 2000, a challenge
  (the random number 0 selects the blink challenge, which lasts 10000 ms). At time
  3000 the application is reset, and the progress interval runs once more at 3100. The
  second attempt starts its passive analysis and, at time 7000, a challenge (the random
  number 0.99 selects the head-turn challenge, which lasts 12000 ms).
\<close>

definition attempt1 :: world where
  "attempt1 = w_startChallenge 0 2000 (w_startPassiveAnalysis new_world)"

definition after_reset :: world where
  "after_reset = fst (w_fire 2 3100 (w_resetApp attempt1))"

definition attempt2 :: world where
  "attempt2 = w_startChallenge 0.99 7000 (w_startPassiveAnalysis after_reset)"

section \<open>Sample inputs\<close>

text \<open>A frame of a well-lit, sharp, skin-coloured face without rectilinear edges; the
  depth result of a first analysis of a face with nose ratio 0.15 and depth spread
  0.06; a passive result without moire and with steady motion.\<close>

definition clean_image :: image_stats where
  "clean_image = \<lparr>im_variance = 100, im_skinRatio = 0.5, im_avgSharpness = 10,
     im_rectangularEdges = 0, im_totalEdges = 100\<rparr>"

definition clean_depth :: depth_result where
  "clean_depth = DepthAnalysis
     \<lparr>da_isReal = True, da_score = Some 80, da_depthScore = 100,
      da_consistencyScore = Some 50,
      da_features = \<lparr>f_eyeDistance = 100, f_noseProtrusion = 15, f_noseRatio = Fin 0.15,
                      f_zVariance = 0.06, f_timestamp = 0\<rparr>,
      da_keypoints = []\<rparr>"

definition clean_passive :: passive_result where
  "clean_passive = \<lparr>pr_moireScore = 100, pr_temporalScore = 100, pr_overallScore = 90\<rparr>"

text \<open>The same frame held in a rectangular cut-out: every sampled point lies on a
  straight edge.\<close>

definition cutout_image :: image_stats where
  "cutout_image = clean_image\<lparr>im_rectangularEdges := 100\<rparr>"

text \<open>A passive result with moire patterns.\<close>

definition moire_passive :: passive_result where
  "moire_passive = \<lparr>pr_moireScore = 50, pr_temporalScore = 100, pr_overallScore = 70\<rparr>"

text \<open>The depth estimator after the constructor and a successful \<open>initialize\<close>.\<close>

definition loaded_depth :: depth_estimator where
  "loaded_depth = \<lparr>de_isModelLoaded = True, de_faceMesh = True, de_depthHistory = [],
     de_cachedResult = None, de_frameCount = 0\<rparr>"

text \<open>The eye-reflection analyzer after the constructor and \<open>initialize\<close>.\<close>

definition ready_eye_reflection :: eye_reflection where
  "ready_eye_reflection = \<lparr>ey_isReady = True, ey_reflectionHistory = [], ey_lastResult = None,
     ey_cachedResult = None, ey_frameCount = 0\<rparr>"

text \<open>A flat face of 468 keypoints without depth coordinates, its eyes one unit
  apart.\<close>

definition flat_face :: "keypoint list" where
  "flat_face = map (eye_point 0.3) [0..<468]"

section \<open>Runs of the micro-expression analyzer\<close>

text \<open>The calls the application makes on its \<open>MicroExpression\<close> object, and the state
  after a sequence of them on a new object.\<close>

datatype me_op = MeInitialize | MeAnalyze int "keypoint list option" | MeReset

fun me_step :: "me_op \<Rightarrow> micro_expression \<Rightarrow> micro_expression" where
  "me_step MeInitialize s = me_initialize s"
| "me_step (MeAnalyze now keypoints) s = snd (me_analyze now keypoints s)"
| "me_step MeReset s = me_reset s"

definition me_run :: "me_op list \<Rightarrow> micro_expression" where
  "me_run ops = fold me_step ops new_micro_expression"

text \<open>The history entry \<open>analyze\<close> stores for the flat face at the time \<open>now\<close>: the five
  key points, of which only the right eye corner (263) is off the origin.\<close>

definition flat_entry :: "int \<Rightarrow> history_entry" where
  "flat_entry now =
     \<lparr>he_keypoints = [\<lparr>px = 0, py = 0, pz = 0\<rparr>, \<lparr>px = 0, py = 0, pz = 0\<rparr>,
                      \<lparr>px = 1, py = 0, pz = 0\<rparr>, \<lparr>px = 0, py = 0, pz = 0\<rparr>,
                      \<lparr>px = 0, py = 0, pz = 0\<rparr>],
      he_timestamp = now\<rparr>"

text \<open>The analyzer after \<open>initialize\<close> and four calls of \<open>analyze\<close> on the flat face,
  200 ms apart.\<close>

definition four_entries :: micro_expression where
  "four_entries = me_run [MeInitialize, MeAnalyze 0 (Some flat_face),
     MeAnalyze 200 (Some flat_face), MeAnalyze 400 (Some flat_face),
     MeAnalyze 600 (Some flat_face)]"

section \<open>Properties\<close>

subsection \<open>Helper facts\<close>

lemma push_shift_drop:
  "length h \<le> cap \<Longrightarrow> push_shift cap x h = drop (Suc (length h) - cap) (h @ [x])"
  by (cases h) (auto simp: push_shift_def Let_def Suc_diff_le)

lemma push_shift_length:
  "length h \<le> cap \<Longrightarrow> length (push_shift cap x h) \<le> cap"
  by (auto simp: push_shift_def Let_def)

lemma insert_all_drop:
  "length h \<le> cap \<Longrightarrow> insert_all cap xs h = drop (length h + length xs - cap) (h @ xs)"
proof (induction xs arbitrary: h)
  case Nil
  then show ?case by (simp add: insert_all_def)
next
  case (Cons x xs)
  let ?h' = "push_shift cap x h"
  have len: "length ?h' \<le> cap" using Cons.prems by (rule push_shift_length)
  have "insert_all cap (x # xs) h = insert_all cap xs ?h'"
    by (simp add: insert_all_def)
  also have "\<dots> = drop (length ?h' + length xs - cap) (?h' @ xs)"
    using len by (rule Cons.IH)
  also have "\<dots> = drop (length h + length (x # xs) - cap) (h @ x # xs)"
  proof (cases "length h < cap")
    case True
    then show ?thesis by (simp add: push_shift_def Let_def)
  next
    case False
    with Cons.prems have eq: "length h = cap" by simp
    then have h': "?h' = tl (h @ [x])" by (simp add: push_shift_def Let_def)
    have A: "?h' @ xs = tl (h @ x # xs)" unfolding h' by (cases h) simp_all
    have "length ?h' = cap" unfolding h' using eq by simp
    then have B: "length ?h' + length xs - cap = length xs" by simp
    have C: "length h + length (x # xs) - cap = Suc (length xs)" using eq by simp
    show ?thesis unfolding A B C by (simp only: drop_Suc)
  qed
  finally show ?case .
qed

lemma insert_all_empty:
  "insert_all cap xs [] = drop (length xs - cap) xs"
  using insert_all_drop [of "[]" cap xs] by simp

lemma fold_push_shift:
  "fold (push_shift cap) xs [] = drop (length xs - cap) xs"
  using insert_all_empty [of cap xs] by (simp add: insert_all_def)

lemma addToHistory_eqs:
  "addFrameToHistory = push_shift 15"
  "as_addToHistory = push_shift 10"
  "de_addToHistory = push_shift 10"
  "ey_addToHistory = push_shift 8"
  by (simp_all add: fun_eq_iff addFrameToHistory_def maxFrames_def as_addToHistory_def
      as_maxHistory_def de_addToHistory_def de_maxHistory_def ey_addToHistory_def
      ey_maxHistory_def)

lemma fold_addToHistory:
  "landmarkHistory (fold addToHistory ls s) = insert_all maxHistoryLength ls (landmarkHistory s)"
  by (induction ls arbitrary: s) (simp_all add: insert_all_def addToHistory_def)

subsection \<open>Double arithmetic\<close>



















subsection \<open>The combined score and the verdict\<close>


















subsection \<open>Rolling histories\<close>

text \<open>
  C8. Whatever is inserted into an empty history of capacity \<open>cap\<close>, the history
  never holds more than \<open>cap\<close> entries, and it holds the most recent ones in the order
  of arrival: what remains of the inserted sequence after dropping its oldest
  \<open>length xs - cap\<close> entries. After five entries followed by \<open>N\<close> further ones, a
  history of capacity \<open>N\<close> holds exactly the last \<open>N\<close>. The landmark history of the
  challenger (capacity 30), the frame history of the passive analyzer (15), the
  analysis history of the anti-spoofing module (10), the depth history (10), the
  reflection history (8) and the landmark history of the micro-expression analyzer
  (20, holding the entry made from each keypoint set) are such histories.
\<close>

theorem rolling_history_bounded_fifo:
  "length (insert_all cap xs []) \<le> cap
   \<and> insert_all cap xs [] = drop (length xs - cap) xs
   \<and> insert_all (length zs) ([a, b, c, d, e] @ zs) [] = zs
   \<and> landmarkHistory (fold addToHistory ls new_challenger) = drop (length ls - 30) ls
   \<and> fold addFrameToHistory fs [] = drop (length fs - 15) fs
   \<and> fold as_addToHistory rs [] = drop (length rs - 10) rs
   \<and> fold de_addToHistory ds [] = drop (length ds - 10) ds
   \<and> fold ey_addToHistory es [] = drop (length es - 8) es
   \<and> fold (\<lambda>(now, kp). me_addToHistory now kp) ks [] =
        drop (length ks - 20)
          (map (\<lambda>(now, kp). \<lparr>he_keypoints = map (simplify_point kp) keyIndices,
                                he_timestamp = now\<rparr>) ks)"
proof -
  have 1: "length (insert_all cap xs []) \<le> cap"
    by (simp add: insert_all_empty)
  have 2: "insert_all (length zs) ([a, b, c, d, e] @ zs) [] = zs"
    by (simp add: insert_all_empty)
  have 3: "landmarkHistory (fold addToHistory ls new_challenger) = drop (length ls - 30) ls"
    by (simp add: fold_addToHistory insert_all_empty new_challenger_def maxHistoryLength_def)
  have 4: "fold addFrameToHistory fs [] = drop (length fs - 15) fs"
    by (simp add: addToHistory_eqs fold_push_shift)
  have 5: "fold as_addToHistory rs [] = drop (length rs - 10) rs"
    by (simp add: addToHistory_eqs fold_push_shift)
  have 6: "fold de_addToHistory ds [] = drop (length ds - 10) ds"
    by (simp add: addToHistory_eqs fold_push_shift)
  have 7: "fold ey_addToHistory es [] = drop (length es - 8) es"
    by (simp add: addToHistory_eqs fold_push_shift)
  let ?entry = "\<lambda>(now, kp). \<lparr>he_keypoints = map (simplify_point kp) keyIndices,
                                he_timestamp = now\<rparr>"
  have "(\<lambda>(now, kp). me_addToHistory now kp) = push_shift 20 \<circ> ?entry"
    by (simp add: fun_eq_iff me_addToHistory_def me_maxHistory_def)
  then have "fold (\<lambda>(now, kp). me_addToHistory now kp) ks [] =
      fold (push_shift 20) (map ?entry ks) []"
    by (simp add: fold_map)
  then have 8: "fold (\<lambda>(now, kp). me_addToHistory now kp) ks [] =
      drop (length ks - 20) (map ?entry ks)"
    by (simp add: fold_push_shift)
  from 1 2 3 4 5 6 7 8 insert_all_empty [of cap xs] show ?thesis by (intro conjI)
qed

subsection \<open>The head-turn verifier\<close>


















subsection \<open>The blink verifier on dense landmarks\<close>

lemma avgEAR_dense:
  "0 \<le> v \<Longrightarrow> avgEAR (map (eye_point v) [0..<468]) = Inr (Fin v)"
  by (simp add: avgEAR_def eye_point_def kp_dist_def js_div_def Let_def)

lemma verifyBlink_dense_frame:
  "0 \<le> v \<Longrightarrow> verifyBlink (dense_frame v) s =
     (let s1 = (if v < 0.15 then s\<lparr>blinkCount := blinkCount s + 1\<rparr> else s)
      in Inr (blinkCount s1 \<ge> blinkRequired, s1))"
  by (simp add: verifyBlink_def dense_frame_def avgEAR_dense Let_def)

text \<open>
  C2, on the code. The dense branch of \<open>verifyBlink\<close> adds one to the blink count at
  every frame whose average Eye-Aspect-Ratio is below 0.15, whatever the frame before
  was. A single closure that lasts two frames, the ratios 0.30, 0.10, 0.10, 0.30, is
  therefore counted twice, and the call on its second frame returns true: the list
  gives, for each frame, the returned boolean and the blink count.
\<close>

theorem blink_single_closure_counted_twice:
  "feed_blink (map dense_frame [0.30, 0.10, 0.10, 0.30]) (started blink_challenge)
     = [Inr (False, 0), Inr (False, 1), Inr (True, 2), Inr (True, 2)]"
  by (simp add: verifyBlink_dense_frame blinkRequired_def Let_def started_def
      startChallengeExplicit_def initChallengeState_def new_challenger_def)

subsection \<open>The challenge selector\<close>

lemma js_index_in_range:
  assumes "0 \<le> r" "r < 1" "xs \<noteq> []"
  shows "\<exists>x. js_index xs \<lfloor>r * real (length xs)\<rfloor> = Some x \<and> x \<in> set xs"
proof -
  have n: "0 < real (length xs)" using assms(3) by simp
  have "0 \<le> r * real (length xs)" using assms(1) by simp
  then have lo: "0 \<le> \<lfloor>r * real (length xs)\<rfloor>" by simp
  have "r * real (length xs) < 1 * real (length xs)"
    using assms(2) n by (rule mult_strict_right_mono)
  then have "r * real (length xs) < real_of_int (int (length xs))" by simp
  then have hi: "\<lfloor>r * real (length xs)\<rfloor> < int (length xs)"
    by (simp only: floor_less_iff)
  from lo hi have "nat \<lfloor>r * real (length xs)\<rfloor> < length xs" by linarith
  then have "xs ! nat \<lfloor>r * real (length xs)\<rfloor> \<in> set xs" by (rule nth_mem)
  with lo hi show ?thesis by (simp add: js_index_def)
qed

lemma js_index_Some: "js_index xs i = Some x \<Longrightarrow> x \<in> set xs"
  by (auto simp: js_index_def split: if_splits)

lemma available_iff:
  "c \<in> set (availableChallenges s) \<longleftrightarrow> c \<in> set (challenges s) \<and> ch_id c \<notin> used s"
  by (auto simp: availableChallenges_def used_def)

lemma getRandomChallenge_Some:
  "getRandomChallenge r s = (Some c, s') \<Longrightarrow>
     c \<in> set (challenges s) \<and> ch_id c \<notin> used s \<and> s' = s"
  by (auto simp: getRandomChallenge_def Let_def available_iff [symmetric]
           split: if_splits dest: js_index_Some)

lemma getRandomChallenge_None_exhausted:
  "availableChallenges s = [] \<Longrightarrow>
     getRandomChallenge r s = (None, s\<lparr>challengeHistory := []\<rparr>)"
  by (simp add: getRandomChallenge_def)

lemma selector_step:
  assumes "0 \<le> r" and "r < 1"
  shows "(case getRandomChallenge r s of
            (None, s') \<Rightarrow> (\<forall>c \<in> set (challenges s). ch_id c \<in> used s) \<and> s' = s\<lparr>challengeHistory := []\<rparr>
                          \<and> availableChallenges s' = challenges s
          | (Some c, s') \<Rightarrow> c \<in> set (challenges s) \<and> ch_id c \<notin> used s \<and> s' = s)"
proof (cases "availableChallenges s = []")
  case True
  then have "\<forall>c \<in> set (challenges s). ch_id c \<in> used s"
    using available_iff [of _ s] by auto
  with True show ?thesis
    by (simp add: getRandomChallenge_None_exhausted availableChallenges_def)
next
  case False
  from js_index_in_range [OF assms False] obtain c where
    c: "js_index (availableChallenges s) \<lfloor>r * real (length (availableChallenges s))\<rfloor> = Some c"
       "c \<in> set (availableChallenges s)" by blast
  with False show ?thesis
    by (simp add: getRandomChallenge_def Let_def available_iff)
qed

lemma startChallenge_Some:
  assumes "currentChallenge (fst (startChallenge r now s)) = Some c"
  shows "ch_id c \<notin> used s \<and> c \<in> set (challenges s)
       \<and> challengeHistory (fst (startChallenge r now s)) = challengeHistory s
       \<and> challenges (fst (startChallenge r now s)) = challenges s"
proof -
  obtain c' s1 where g: "getRandomChallenge r s = (c', s1)" by (cases "getRandomChallenge r s")
  with assms have "c' = Some c"
    by (auto simp: startChallenge_def Let_def initChallengeState_def split: if_splits option.splits)
  with g have "c \<in> set (challenges s) \<and> ch_id c \<notin> used s \<and> s1 = s"
    using getRandomChallenge_Some by blast
  with g \<open>c' = Some c\<close> show ?thesis
    by (simp add: startChallenge_def Let_def initChallengeState_def)
qed

lemma completeChallenge_used:
  "currentChallenge s = Some c \<Longrightarrow>
     used (fst (completeChallenge ok now s)) = insert (ch_id c) (used s)
   \<and> challenges (fst (completeChallenge ok now s)) = challenges s"
  by (simp add: completeChallenge_def used_def Let_def)

lemma selections_distinct_aux:
  "list_all (\<lambda>c. c \<noteq> None) (selections rs now s) \<Longrightarrow>
     distinct (map (\<lambda>c. ch_id (the c)) (selections rs now s))
   \<and> (\<forall>c \<in> set (selections rs now s). ch_id (the c) \<notin> used s \<and> the c \<in> set (challenges s))"
proof (induction rs arbitrary: s)
  case Nil
  then show ?case by simp
next
  case (Cons a rs)
  obtain r ok where a: "a = (r, ok)" by (cases a)
  let ?s1 = "fst (startChallenge r now s)"
  let ?s2 = "after_round r ok now s"
  from Cons.prems a obtain c where c: "currentChallenge ?s1 = Some c"
    by auto
  from Cons.prems a have rest: "list_all (\<lambda>c. c \<noteq> None) (selections rs now ?s2)"
    by simp
  note st = startChallenge_Some [OF c]
  have u1: "used ?s1 = used s" using st by (simp add: used_def)
  from completeChallenge_used [OF c, of ok now]
  have u2: "used ?s2 = insert (ch_id c) (used s)" and p2: "challenges ?s2 = challenges s"
    using u1 st by (simp_all add: after_round_def)
  from Cons.IH [OF rest] u2 p2
  have ih: "distinct (map (\<lambda>c. ch_id (the c)) (selections rs now ?s2))"
    "\<forall>x \<in> set (selections rs now ?s2). ch_id (the x) \<noteq> ch_id c \<and> ch_id (the x) \<notin> used s
        \<and> the x \<in> set (challenges s)"
    by auto
  have sel: "selections (a # rs) now s = Some c # selections rs now ?s2"
    using a c by simp
  show ?case unfolding sel using ih st by auto
qed


lemma startChallenge_first:
  assumes "availableChallenges s = c # cs"
  shows "currentChallenge (fst (startChallenge 0 now s)) = Some c"
    and "challengeHistory (fst (startChallenge 0 now s)) = challengeHistory s"
    and "challenges (fst (startChallenge 0 now s)) = challenges s"
  using assms
  by (simp_all add: startChallenge_def getRandomChallenge_def js_index_def Let_def
        initChallengeState_def)

lemma round_first:
  assumes "availableChallenges s = c # cs"
  shows "availableChallenges (after_round 0 ok now s) = filter (\<lambda>x. ch_id x \<noteq> ch_id c) cs"
    and "challenges (after_round 0 ok now s) = challenges s"
proof -
  note st = startChallenge_first [OF assms, of now]
  have h: "challengeHistory (after_round 0 ok now s) =
      challengeHistory s @ [\<lparr>r_id = ch_id c, r_name = ch_name c, r_success = ok,
        r_duration = now - (case startTime (fst (startChallenge 0 now s)) of None \<Rightarrow> 0 | Some t \<Rightarrow> t)\<rparr>]"
    and p: "challenges (after_round 0 ok now s) = challenges s"
    using st by (simp_all add: after_round_def completeChallenge_def Let_def)
  have "availableChallenges (after_round 0 ok now s) =
      filter (\<lambda>x. ch_id x \<noteq> ch_id c) (availableChallenges s)"
    unfolding availableChallenges_def h p by (simp add: conj_commute)
  also have "\<dots> = filter (\<lambda>x. ch_id x \<noteq> ch_id c) cs"
    unfolding assms by simp
  finally show "availableChallenges (after_round 0 ok now s) = filter (\<lambda>x. ch_id x \<noteq> ch_id c) cs" .
  show "challenges (after_round 0 ok now s) = challenges s" by (rule p)
qed

lemma round_exhausted:
  assumes "availableChallenges s = []"
  shows "currentChallenge (fst (startChallenge r now s)) = None"
    and "availableChallenges (after_round r ok now s) = challenges s"
    and "challenges (after_round r ok now s) = challenges s"
  using assms
  by (simp_all add: after_round_def startChallenge_def getRandomChallenge_def Let_def
        completeChallenge_def availableChallenges_def)

lemma five_rounds: "selections [(0, True), (0, True), (0, True), (0, True), (0, True)] 0 new_challenger
  = [Some blink_challenge, Some smile_challenge, Some turnHead_challenge, None, Some blink_challenge]"
proof -
  let ?s1 = "after_round 0 True 0 new_challenger"
  let ?s2 = "after_round 0 True 0 ?s1"
  let ?s3 = "after_round 0 True 0 ?s2"
  let ?s4 = "after_round 0 True 0 ?s3"
  have p0: "challenges new_challenger = [blink_challenge, smile_challenge, turnHead_challenge]"
    by (simp add: new_challenger_def)
  have a0: "availableChallenges new_challenger = blink_challenge # [smile_challenge, turnHead_challenge]"
    by (simp add: availableChallenges_def new_challenger_def)
  have a1: "availableChallenges ?s1 = smile_challenge # [turnHead_challenge]"
    unfolding round_first(1) [OF a0]
    by (simp add: blink_challenge_def smile_challenge_def turnHead_challenge_def)
  have a2: "availableChallenges ?s2 = turnHead_challenge # []"
    unfolding round_first(1) [OF a1]
    by (simp add: blink_challenge_def smile_challenge_def turnHead_challenge_def)
  have a3: "availableChallenges ?s3 = []"
    unfolding round_first(1) [OF a2] by simp
  have p3: "challenges ?s3 = [blink_challenge, smile_challenge, turnHead_challenge]"
    unfolding round_first(2) [OF a2] round_first(2) [OF a1] round_first(2) [OF a0] by (rule p0)
  have a4: "availableChallenges ?s4 = blink_challenge # [smile_challenge, turnHead_challenge]"
    unfolding round_exhausted(2) [OF a3] by (simp add: p3)
  show ?thesis
    by (simp add: startChallenge_first(1) [OF a0] startChallenge_first(1) [OF a1]
        startChallenge_first(1) [OF a2] round_exhausted(1) [OF a3] startChallenge_first(1) [OF a4])
qed

lemma exhausted_after_three:
  "availableChallenges (after_round 0 True 0 (after_round 0 True 0
      (after_round 0 True 0 new_challenger))) = []
   \<and> challenges (after_round 0 True 0 (after_round 0 True 0
      (after_round 0 True 0 new_challenger))) =
      [blink_challenge, smile_challenge, turnHead_challenge]"
proof -
  have a0: "availableChallenges new_challenger = blink_challenge # [smile_challenge, turnHead_challenge]"
    by (simp add: availableChallenges_def new_challenger_def)
  have a1: "availableChallenges (after_round 0 True 0 new_challenger) =
      smile_challenge # [turnHead_challenge]"
    unfolding round_first(1) [OF a0]
    by (simp add: blink_challenge_def smile_challenge_def turnHead_challenge_def)
  have a2: "availableChallenges (after_round 0 True 0 (after_round 0 True 0 new_challenger)) =
      turnHead_challenge # []"
    unfolding round_first(1) [OF a1]
    by (simp add: blink_challenge_def smile_challenge_def turnHead_challenge_def)
  have a3: "availableChallenges (after_round 0 True 0 (after_round 0 True 0
      (after_round 0 True 0 new_challenger))) = []"
    unfolding round_first(1) [OF a2] by simp
  have p3: "challenges (after_round 0 True 0 (after_round 0 True 0
      (after_round 0 True 0 new_challenger))) =
      [blink_challenge, smile_challenge, turnHead_challenge]"
    unfolding round_first(2) [OF a2] round_first(2) [OF a1] round_first(2) [OF a0]
    by (simp add: new_challenger_def)
  from a3 p3 show ?thesis by simp
qed

text \<open>
  C3 as stated fails: after three rounds on the pool of three descriptors every
  descriptor is used, and the next \<open>getRandomChallenge\<close> returns none although the pool
  is not empty.
\<close>

theorem selector_none_on_used_pool:
  "fst (getRandomChallenge 0 (after_round 0 True 0 (after_round 0 True 0
      (after_round 0 True 0 new_challenger)))) = None
   \<and> challenges (after_round 0 True 0 (after_round 0 True 0
      (after_round 0 True 0 new_challenger))) \<noteq> []"
  using exhausted_after_three by (simp add: getRandomChallenge_def)

lemma startChallenge_outcome:
  "(fst (getRandomChallenge r s) = None \<longrightarrow>
      startChallenge r now s =
        ((snd (getRandomChallenge r s))\<lparr>currentChallenge := None\<rparr>, AllChallengesComplete))
   \<and> (fst (getRandomChallenge r s) = Some c \<longrightarrow>
      startChallenge r now s =
        (fst (initChallengeState now
               ((snd (getRandomChallenge r s))\<lparr>currentChallenge := Some c\<rparr>)),
         Started (Inr [SetTimeout (ch_duration c), SetInterval 100])))"
  by (cases "getRandomChallenge r s")
     (simp add: startChallenge_def initChallengeState_def Let_def)

text \<open>
  C3 as amended. With \<open>Math.random()\<close> in \<open>[0, 1)\<close>, \<open>getRandomChallenge\<close> returns a
  descriptor of the pool whose identifier is not in the history, and leaves the state
  as it is; or, exactly when every descriptor of the pool is used (an empty pool
  included), it returns none and empties the history, after which the whole pool is
  available again. \<open>startChallenge\<close> starts the descriptor returned, arming its two
  timers, and reports a none as all challenges complete, starting nothing. In rounds of
  \<open>startChallenge\<close> followed by \<open>completeChallenge\<close>, as long as no round reports
  none, no descriptor is selected twice.
\<close>

theorem selector_without_repetition:
  assumes "0 \<le> r" and "r < 1"
  shows "(case getRandomChallenge r s of
            (None, s') \<Rightarrow> (\<forall>c \<in> set (challenges s). ch_id c \<in> used s)
                          \<and> s' = s\<lparr>challengeHistory := []\<rparr>
                          \<and> availableChallenges s' = challenges s
          | (Some c, s') \<Rightarrow> c \<in> set (challenges s) \<and> ch_id c \<notin> used s \<and> s' = s)
       \<and> (list_all (\<lambda>c. c \<noteq> None) (selections rs now s) \<longrightarrow>
            distinct (map (\<lambda>c. ch_id (the c)) (selections rs now s)))
       \<and> (fst (getRandomChallenge r s) = None \<longrightarrow>
            startChallenge r now s =
              ((snd (getRandomChallenge r s))\<lparr>currentChallenge := None\<rparr>,
               AllChallengesComplete))
       \<and> (fst (getRandomChallenge r s) = Some c \<longrightarrow>
            startChallenge r now s =
              (fst (initChallengeState now
                     ((snd (getRandomChallenge r s))\<lparr>currentChallenge := Some c\<rparr>)),
               Started (Inr [SetTimeout (ch_duration c), SetInterval 100])))"
  using selector_step [OF assms, of s] selections_distinct_aux [of rs now s]
    startChallenge_outcome [of r s now c]
  by (intro conjI) simp_all

theorem selector_without_repetition_witness:
  "(0 :: real) \<le> 0 \<and> (0 :: real) < 1
   \<and> getRandomChallenge 0 new_challenger = (Some blink_challenge, new_challenger)
   \<and> blink_challenge \<in> set (challenges new_challenger)
   \<and> ch_id blink_challenge \<notin> used new_challenger
   \<and> list_all (\<lambda>c. c \<noteq> None) (selections [(0, True), (0, True), (0, True)] 0 new_challenger)
   \<and> distinct (map (\<lambda>c. ch_id (the c))
         (selections [(0, True), (0, True), (0, True)] 0 new_challenger))
   \<and> snd (startChallenge 0 0 new_challenger) =
        Started (Inr [SetTimeout 10000, SetInterval 100])
   \<and> fst (getRandomChallenge 0 (after_round 0 True 0 (after_round 0 True 0
        (after_round 0 True 0 new_challenger)))) = None
   \<and> snd (startChallenge 0 0 (after_round 0 True 0 (after_round 0 True 0
        (after_round 0 True 0 new_challenger)))) = AllChallengesComplete"
proof -
  let ?s3 = "after_round 0 True 0 (after_round 0 True 0 (after_round 0 True 0 new_challenger))"
  have g: "getRandomChallenge 0 new_challenger = (Some blink_challenge, new_challenger)"
    by (simp add: getRandomChallenge_def availableChallenges_def new_challenger_def
        js_index_def)
  have sel: "selections [(0, True), (0, True), (0, True)] 0 new_challenger =
      [Some blink_challenge, Some smile_challenge, Some turnHead_challenge]"
    using five_rounds by simp
  have all: "list_all (\<lambda>c. c \<noteq> None) (selections [(0, True), (0, True), (0, True)] 0 new_challenger)"
    unfolding sel by simp
  have g3: "fst (getRandomChallenge 0 ?s3) = None"
    using exhausted_after_three by (simp add: getRandomChallenge_def)
  have h1: "(0 :: real) \<le> 0" and h2: "(0 :: real) < 1" by simp_all
  note t0 = selector_without_repetition
    [OF h1 h2, of new_challenger "[(0, True), (0, True), (0, True)]" 0 blink_challenge]
  note t3 = selector_without_repetition [OF h1 h2, of ?s3 "[]" 0 blink_challenge]
  from t0 [THEN conjunct1] have m: "blink_challenge \<in> set (challenges new_challenger)"
    and u: "ch_id blink_challenge \<notin> used new_challenger"
    unfolding g by simp_all
  from t0 [THEN conjunct2, THEN conjunct1, THEN mp, OF all]
  have di: "distinct (map (\<lambda>c. ch_id (the c))
         (selections [(0, True), (0, True), (0, True)] 0 new_challenger))" .
  have "fst (getRandomChallenge 0 new_challenger) = Some blink_challenge" unfolding g by simp
  from t0 [THEN conjunct2, THEN conjunct2, THEN conjunct2, THEN mp, OF this]
  have st: "snd (startChallenge 0 0 new_challenger) =
      Started (Inr [SetTimeout 10000, SetInterval 100])"
    by (simp add: blink_challenge_def)
  from t3 [THEN conjunct2, THEN conjunct2, THEN conjunct1, THEN mp, OF g3]
  have ac: "snd (startChallenge 0 0 ?s3) = AllChallengesComplete" by simp
  from h1 h2 g m u all di st g3 ac show ?thesis by (intro conjI)
qed

subsection \<open>Timers across a reset\<close>

lemmas world_eval = w_startChallenge_def w_startPassiveAnalysis_def w_resetApp_def w_fire_def
  resetApp_def stopPassiveAnalysis_def reset_challenger_def clear_timer_def set_timer_def
  startChallenge_def getRandomChallenge_def availableChallenges_def js_index_def
  initChallengeState_def challenge_timeout_fires_def completeChallenge_def
  new_world_def new_app_def new_challenger_def Let_def
  blink_challenge_def smile_challenge_def turnHead_challenge_def

lemma attempt1_eval:
  "attempt1 =
     \<lparr>w_app = new_app\<lparr>livenessChallenger :=
                 fst (initChallengeState 2000
                       (new_challenger\<lparr>currentChallenge := Some blink_challenge\<rparr>)),
               passiveAnalysisInterval := Some 0\<rparr>,
      w_timers = [(0, PassiveInterval), (1, ChallengeTimeout 12000), (2, ProgressInterval)],
      w_nextHandle = 3\<rparr>"
  unfolding attempt1_def by (simp add: world_eval)

lemma reset_eval:
  "w_resetApp attempt1 =
     \<lparr>w_app = new_app\<lparr>livenessChallenger := new_challenger\<lparr>blinkState := Some ''OPEN''\<rparr>\<rparr>,
      w_timers = [(1, ChallengeTimeout 12000), (2, ProgressInterval)],
      w_nextHandle = 3\<rparr>"
  unfolding attempt1_eval by (simp add: world_eval no_turn_def no_baseline_def zero_scores_def)

lemma after_reset_eval:
  "after_reset =
     \<lparr>w_app = new_app\<lparr>livenessChallenger := new_challenger\<lparr>blinkState := Some ''OPEN''\<rparr>\<rparr>,
      w_timers = [(1, ChallengeTimeout 12000)],
      w_nextHandle = 3\<rparr>"
  unfolding after_reset_def reset_eval by (simp add: world_eval)

lemma attempt2_eval:
  "attempt2 =
     \<lparr>w_app = new_app\<lparr>livenessChallenger :=
                 fst (initChallengeState 7000
                       (new_challenger\<lparr>currentChallenge := Some turnHead_challenge\<rparr>)),
               passiveAnalysisInterval := Some 3\<rparr>,
      w_timers = [(1, ChallengeTimeout 12000), (3, PassiveInterval),
                  (4, ChallengeTimeout 19000), (5, ProgressInterval)],
      w_nextHandle = 6\<rparr>"
  unfolding attempt2_def after_reset_eval by (simp add: world_eval)

text \<open>
  C9, on the code. \<open>resetApp\<close> clears the passive-analysis interval, and the progress
  interval of the stopped challenge clears itself at its next tick; the timeout of the
  stopped challenge stays in the timer table, since its handle was never stored and
  nothing cancels it. It is due at 12000. The second attempt starts its head-turn
  challenge at 7000, to last until 19000. When the stale timeout fires at 12000 its
  callback finds a challenge active and completes it as failed, after 5000 ms.
\<close>

theorem stale_timeout_fails_next_attempt:
  "w_timers (w_resetApp attempt1) = [(1, ChallengeTimeout 12000), (2, ProgressInterval)]
   \<and> passiveAnalysisInterval (w_app (w_resetApp attempt1)) = None
   \<and> w_timers after_reset = [(1, ChallengeTimeout 12000)]
   \<and> currentChallenge (livenessChallenger (w_app attempt2)) = Some turnHead_challenge
   \<and> startTime (livenessChallenger (w_app attempt2)) = Some 7000
   \<and> snd (w_fire 1 12000 attempt2) =
        Some \<lparr>r_id = ''turnHead'', r_name = ''Head Turn'', r_success = False,
              r_duration = 5000\<rparr>
   \<and> \<not> isActive (livenessChallenger (w_app (fst (w_fire 1 12000 attempt2))))
   \<and> currentChallenge (livenessChallenger (w_app (fst (w_fire 1 12000 attempt2)))) = None"
proof -
  have 1: "w_timers (w_resetApp attempt1) = [(1, ChallengeTimeout 12000), (2, ProgressInterval)]"
    "passiveAnalysisInterval (w_app (w_resetApp attempt1)) = None"
    unfolding reset_eval by (simp_all add: new_app_def)
  have 2: "w_timers after_reset = [(1, ChallengeTimeout 12000)]"
    unfolding after_reset_eval by simp
  have 3: "currentChallenge (livenessChallenger (w_app attempt2)) = Some turnHead_challenge"
    "startTime (livenessChallenger (w_app attempt2)) = Some 7000"
    unfolding attempt2_eval by (simp_all add: initChallengeState_def)
  have 4: "snd (w_fire 1 12000 attempt2) =
        Some \<lparr>r_id = ''turnHead'', r_name = ''Head Turn'', r_success = False,
              r_duration = 5000\<rparr>"
    "\<not> isActive (livenessChallenger (w_app (fst (w_fire 1 12000 attempt2))))"
    "currentChallenge (livenessChallenger (w_app (fst (w_fire 1 12000 attempt2)))) = None"
    unfolding attempt2_eval by (simp_all add: world_eval)
  from 1 2 3 4 show ?thesis by simp
qed

subsection \<open>The anti-spoofing fusion\<close>

lemma sub_scores_clean:
  "sub_scores clean_image (Some clean_depth) (Some clean_passive) =
     \<lparr>photoScore = 1, screenScore = 1, maskScore = 1, deepfakeScore = 1, cutoutScore = 1\<rparr>"
  by (simp add: sub_scores_def detectPhotoFast_def detectScreenFast_def detectMaskFast_def
      detectDeepfakeFast_def detectCutoutFast_def clean_image_def clean_depth_def
      clean_passive_def Let_def)

lemma sub_scores_cutout:
  "sub_scores cutout_image (Some clean_depth) (Some clean_passive) =
     \<lparr>photoScore = 1, screenScore = 1, maskScore = 1, deepfakeScore = 1, cutoutScore = 0.4\<rparr>"
  by (simp add: sub_scores_def detectPhotoFast_def detectScreenFast_def detectMaskFast_def
      detectDeepfakeFast_def detectCutoutFast_def clean_image_def cutout_image_def
      clean_depth_def clean_passive_def Let_def)

lemma sub_scores_moire:
  "sub_scores clean_image (Some clean_depth) (Some moire_passive) =
     \<lparr>photoScore = 1, screenScore = 0.25, maskScore = 1, deepfakeScore = 1, cutoutScore = 1\<rparr>"
  by (simp add: sub_scores_def detectPhotoFast_def detectScreenFast_def detectMaskFast_def
      detectDeepfakeFast_def detectCutoutFast_def clean_image_def clean_depth_def
      moire_passive_def Let_def)

lemma as_analyze_fresh:
  assumes "as_isReady s" and "(as_frameCount s + 1) mod 3 = 0 \<or> as_cachedResult s = None"
  shows "fst (as_analyze im d p s) =
     Some (fuse (sub_scores im d p)
       (as_calculateTemporalFast (as_addToHistory (sub_scores im d p) (as_analysisHistory s))))"
  using assms by (auto simp add: as_analyze_def Let_def)

lemma as_analyze_first:
  "fst (as_analyze im d p ready_anti_spoofing) = Some (fuse (sub_scores im d p) 0.5)"
  by (simp add: as_analyze_fresh ready_anti_spoofing_def as_calculateTemporalFast_def
      as_addToHistory_def push_shift_def as_maxHistory_def)

lemma fuse_clean:
  "sr_overallScore (fuse \<lparr>photoScore = 1, screenScore = 1, maskScore = 1, deepfakeScore = 1,
      cutoutScore = 1\<rparr> 0.5) = 105"
  by (simp add: fuse_def Let_def js_round_def)

lemma fuse_labels:
  "(''PHOTO_ATTACK'' \<in> set (sr_attacksDetected (fuse sc tb)) \<longleftrightarrow> photoScore sc < 0.5)
   \<and> (''SCREEN_REPLAY'' \<in> set (sr_attacksDetected (fuse sc tb)) \<longleftrightarrow> screenScore sc < 0.5)
   \<and> (''MASK_DETECTED'' \<in> set (sr_attacksDetected (fuse sc tb)) \<longleftrightarrow> maskScore sc < 0.5)
   \<and> (''DEEPFAKE_SUSPECTED'' \<in> set (sr_attacksDetected (fuse sc tb))
        \<longleftrightarrow> deepfakeScore sc < 0.5)
   \<and> set (sr_attacksDetected (fuse sc tb)) \<subseteq>
        {''PHOTO_ATTACK'', ''SCREEN_REPLAY'', ''MASK_DETECTED'', ''DEEPFAKE_SUSPECTED''}"
  by (auto simp add: fuse_def Let_def)

text \<open>
  C4, on the code. The weights of the fusion add up to 1.10: the five sub-scores carry
  0.25, 0.25, 0.20, 0.15 and 0.15, and the temporal bonus another 0.10. The first
  analysis of a clean frame, where all five sub-scores are 1 and the temporal bonus is
  its initial 0.5, has the overall score 105, and the passive-analysis tick stores 105
  as the anti-spoofing score.
\<close>

theorem antispoof_score_exceeds_100:
  "sr_overallScore (the (fst (as_analyze clean_image (Some clean_depth) (Some clean_passive)
       ready_anti_spoofing))) = 105
   \<and> antiSpoof (store_antiSpoof
        (fst (as_analyze clean_image (Some clean_depth) (Some clean_passive)
           ready_anti_spoofing)) zero_scores) = Some 105"
  using fuse_clean by (simp add: as_analyze_first sub_scores_clean store_antiSpoof_def)

text \<open>
  C5 as stated fails for the cut-out sub-score: the frame in a rectangular cut-out has
  the cut-out score 0.4, and its analysis carries no attack label.
\<close>

theorem no_label_for_cutout:
  "cutoutScore (sub_scores cutout_image (Some clean_depth) (Some clean_passive)) < 0.5
   \<and> sr_attacksDetected (the (fst (as_analyze cutout_image (Some clean_depth)
        (Some clean_passive) ready_anti_spoofing))) = []"
  by (simp add: as_analyze_first sub_scores_cutout fuse_def Let_def)

text \<open>
  C5 as amended. An analysis that is not answered from the cache (the module is
  ready, and the frame counter reaches a multiple of three or nothing is cached)
  returns a result whose attack labels are exactly these: \<open>PHOTO_ATTACK\<close> if and only
  if the photo score is below 0.5, \<open>SCREEN_REPLAY\<close> if and only if the screen score
  is, \<open>MASK_DETECTED\<close> if and only if the mask score is, \<open>DEEPFAKE_SUSPECTED\<close> if and
  only if the deepfake score is. There is no other label; the cut-out score has none.
\<close>

theorem attack_labels:
  assumes "as_isReady s" and "(as_frameCount s + 1) mod 3 = 0 \<or> as_cachedResult s = None"
  shows "\<exists>res. fst (as_analyze im d p s) = Some res
     \<and> (''PHOTO_ATTACK'' \<in> set (sr_attacksDetected res)
          \<longleftrightarrow> photoScore (sub_scores im d p) < 0.5)
     \<and> (''SCREEN_REPLAY'' \<in> set (sr_attacksDetected res)
          \<longleftrightarrow> screenScore (sub_scores im d p) < 0.5)
     \<and> (''MASK_DETECTED'' \<in> set (sr_attacksDetected res)
          \<longleftrightarrow> maskScore (sub_scores im d p) < 0.5)
     \<and> (''DEEPFAKE_SUSPECTED'' \<in> set (sr_attacksDetected res)
          \<longleftrightarrow> deepfakeScore (sub_scores im d p) < 0.5)
     \<and> set (sr_attacksDetected res) \<subseteq>
          {''PHOTO_ATTACK'', ''SCREEN_REPLAY'', ''MASK_DETECTED'', ''DEEPFAKE_SUSPECTED''}"
  unfolding as_analyze_fresh [OF assms]
  by (rule exI [of _ "fuse (sub_scores im d p)
        (as_calculateTemporalFast (as_addToHistory (sub_scores im d p) (as_analysisHistory s)))"],
      rule conjI, rule refl, rule fuse_labels)

theorem attack_labels_witness:
  "as_isReady ready_anti_spoofing \<and> as_cachedResult ready_anti_spoofing = None
   \<and> screenScore (sub_scores clean_image (Some clean_depth) (Some moire_passive)) < 0.5
   \<and> \<not> photoScore (sub_scores clean_image (Some clean_depth) (Some moire_passive)) < 0.5
   \<and> (\<exists>res. fst (as_analyze clean_image (Some clean_depth) (Some moire_passive)
                   ready_anti_spoofing) = Some res
         \<and> ''SCREEN_REPLAY'' \<in> set (sr_attacksDetected res)
         \<and> ''PHOTO_ATTACK'' \<notin> set (sr_attacksDetected res))"
proof -
  have h1: "as_isReady ready_anti_spoofing"
    and h2: "(as_frameCount ready_anti_spoofing + 1) mod 3 = 0
             \<or> as_cachedResult ready_anti_spoofing = None"
    by (simp_all add: ready_anti_spoofing_def)
  have sc: "screenScore (sub_scores clean_image (Some clean_depth) (Some moire_passive)) < 0.5"
    "\<not> photoScore (sub_scores clean_image (Some clean_depth) (Some moire_passive)) < 0.5"
    unfolding sub_scores_moire by simp_all
  have c: "as_cachedResult ready_anti_spoofing = None"
    by (simp add: ready_anti_spoofing_def)
  from attack_labels [OF h1 h2, of clean_image "Some clean_depth" "Some moire_passive"]
  obtain res where r: "fst (as_analyze clean_image (Some clean_depth) (Some moire_passive)
                   ready_anti_spoofing) = Some res"
    and ph: "(''PHOTO_ATTACK'' \<in> set (sr_attacksDetected res)) =
               (photoScore (sub_scores clean_image (Some clean_depth) (Some moire_passive)) < 0.5)"
    and scr: "(''SCREEN_REPLAY'' \<in> set (sr_attacksDetected res)) =
               (screenScore (sub_scores clean_image (Some clean_depth) (Some moire_passive)) < 0.5)"
    by (elim exE conjE)
  from ph sc(2) have nph: "''PHOTO_ATTACK'' \<notin> set (sr_attacksDetected res)" by simp
  from scr sc(1) have yscr: "''SCREEN_REPLAY'' \<in> set (sr_attacksDetected res)" by simp
  from r yscr nph have "\<exists>res. fst (as_analyze clean_image (Some clean_depth) (Some moire_passive)
                   ready_anti_spoofing) = Some res
         \<and> ''SCREEN_REPLAY'' \<in> set (sr_attacksDetected res)
         \<and> ''PHOTO_ATTACK'' \<notin> set (sr_attacksDetected res)"
    by (intro exI [of _ res] conjI)
  with h1 c sc show ?thesis by (intro conjI)
qed

subsection \<open>Insufficient input\<close>

lemma features_flat:
  "extractFeaturesFast now flat_face =
     Inr \<lparr>f_eyeDistance = 1, f_noseProtrusion = 0, f_noseRatio = Fin 0, f_zVariance = 0,
          f_timestamp = now\<rparr>"
  by (simp add: flat_face_def extractFeaturesFast_def eye_point_def de_dist_def z_or_0_def
      js_div_def Let_def)

lemma depth_first:
  "estimateDepth 0 (Inr [flat_face]) loaded_depth =
     (Some (DepthAnalysis \<lparr>da_isReal = False, da_score = Some 38, da_depthScore = 30,
        da_consistencyScore = Some 50,
        da_features = \<lparr>f_eyeDistance = 1, f_noseProtrusion = 0, f_noseRatio = Fin 0,
                        f_zVariance = 0, f_timestamp = 0\<rparr>,
        da_keypoints = flat_face\<rparr>),
      \<lparr>de_isModelLoaded = True, de_faceMesh = True,
       de_depthHistory = [\<lparr>f_eyeDistance = 1, f_noseProtrusion = 0, f_noseRatio = Fin 0,
                           f_zVariance = 0, f_timestamp = 0\<rparr>],
       de_cachedResult = Some (DepthAnalysis \<lparr>da_isReal = False, da_score = Some 38,
        da_depthScore = 30, da_consistencyScore = Some 50,
        da_features = \<lparr>f_eyeDistance = 1, f_noseProtrusion = 0, f_noseRatio = Fin 0,
                        f_zVariance = 0, f_timestamp = 0\<rparr>,
        da_keypoints = flat_face\<rparr>),
       de_frameCount = 1\<rparr>)"
  by (simp add: estimateDepth_def loaded_depth_def features_flat Let_def calculateScoreFast_def
    de_addToHistory_def push_shift_def de_maxHistory_def calculateConsistencyFast_def js_round_def)

lemma depth_second:
  "fst (estimateDepth 200 (Inr []) (snd (estimateDepth 0 (Inr [flat_face]) loaded_depth)))
     = Some NoFaceDetected"
  unfolding depth_first by (simp add: estimateDepth_def)

lemma depth_insufficient:
  "(\<not> de_isModelLoaded s \<or> \<not> de_faceMesh s \<longrightarrow> estimateDepth now faces s = (de_cachedResult s, s))
   \<and> fst (estimateDepth now (Inl e) s) = de_cachedResult s
   \<and> (length face \<le> 263 \<longrightarrow> fst (estimateDepth now (Inr (face # fs)) s) = de_cachedResult s)
   \<and> (de_isModelLoaded s \<and> de_faceMesh s \<and>
        (Suc (de_frameCount s) mod 2 = 0 \<or> de_cachedResult s = None) \<longrightarrow>
        fst (estimateDepth now (Inr []) s) = Some NoFaceDetected
        \<and> de_cachedResult (snd (estimateDepth now (Inr []) s)) = de_cachedResult s)"
  by (auto simp add: estimateDepth_def Let_def extractFeaturesFast_def)

lemma eye_insufficient:
  "\<not> ey_isReady s \<or> kp = None \<or> length (the kp) < 400 \<Longrightarrow>
     ey_analyze kp lc rc s = (ey_cachedResult s, s)"
  by (auto simp add: ey_analyze_def)

lemma micro_insufficient:
  "\<not> me_isReady s \<or> kp = None \<or> length (the kp) < 400 \<Longrightarrow>
     me_analyze now kp s = (me_cachedResult s, s)"
  by (auto simp add: me_analyze_def)

lemma short_history_neutral:
  "length h1 < 3 \<Longrightarrow> as_calculateTemporalFast h1 = 0.5"
  "length h2 < 3 \<Longrightarrow> ey_calculateTemporalFast h2 = 0.5"
  "length h3 < 3 \<Longrightarrow> calculateConsistencyFast h3 = Fin 0.5"
  by (simp_all add: as_calculateTemporalFast_def ey_calculateTemporalFast_def
      calculateConsistencyFast_def)

lemma missing_results_neutral:
  "detectScreenFast None = 0.5 \<and> detectDeepfakeFast None = 0.5 \<and> detectMaskFast None = 0.5
   \<and> detectMaskFast (Some NoFaceDetected) = 0.5"
  by (simp add: detectScreenFast_def detectDeepfakeFast_def detectMaskFast_def)

text \<open>
  C6 as stated fails for the depth analyzer. A loaded estimator analyses a face and
  caches the result, whose score is 38. At the next call the detector finds no face:
  the call returns the no-face result, whose score is 0 and whose verdict is not real.
  That is not the cached result, and the cache still holds the score 38.
\<close>

theorem depth_no_face_scores_zero:
  "fst (estimateDepth 200 (Inr []) (snd (estimateDepth 0 (Inr [flat_face]) loaded_depth)))
     = Some NoFaceDetected
   \<and> depth_result_score NoFaceDetected = Some 0
   \<and> \<not> depth_result_isReal NoFaceDetected
   \<and> fst (estimateDepth 200 (Inr []) (snd (estimateDepth 0 (Inr [flat_face]) loaded_depth)))
     \<noteq> de_cachedResult (snd (estimateDepth 0 (Inr [flat_face]) loaded_depth))
   \<and> depth_result_score
        (the (de_cachedResult (snd (estimateDepth 0 (Inr [flat_face]) loaded_depth)))) = Some 38"
  using depth_second by (simp add: depth_first)

lemma not_ready_cached:
  "\<not> as_isReady s \<Longrightarrow> as_analyze im d p s = (as_cachedResult s, s)"
  by (simp add: as_analyze_def)

lemma short_history_micro:
  "length h < 8 \<Longrightarrow> detectMicroMovementsFast h = 0.5"
  "length h < 3 \<Longrightarrow> analyzeCoordinationFast h = 0.5"
  "length h < 3 \<Longrightarrow> countMicroMovementsFast h = 0"
  by (simp_all add: detectMicroMovementsFast_def analyzeCoordinationFast_def
      countMicroMovementsFast_def)

text \<open>
  C6 as amended. On the insufficient inputs below no call throws: each returns a
  value, and the one exception that can arise, in the depth estimator, is caught
  there. The eye-reflection and the micro-expression analyzer return their cached
  result, and leave their state as it is, when they are not ready or the keypoints are
  missing or fewer than 400; the anti-spoofing module returns its cached result when
  it is not ready. The depth estimator returns its cached result when the model is not
  loaded, when the detector throws, and when the first face has too few keypoints to
  read (index 263 at most); when the detector finds no face, an analysis that is not
  skipped returns the no-face result, with score 0 and the verdict not real, and
  leaves the cache as it is. With fewer than three history entries the temporal score
  of the anti-spoofing module, the temporal score of the eye-reflection module, the
  consistency score of the depth estimator and the coordination score of the
  micro-expression analyzer are 0.5, and so is its micro-movement score with fewer
  than eight; the temporal score of the passive analyzer is 0.7 with fewer than three
  frames. The screen, deepfake and mask scores are 0.5 when the result they are
  derived from is missing.
\<close>

theorem insufficient_input:
  "(\<not> ey_isReady es \<or> kp = None \<or> length (the kp) < 400 \<longrightarrow>
      ey_analyze kp lc rc es = (ey_cachedResult es, es))
   \<and> (\<not> me_isReady ms \<or> kp = None \<or> length (the kp) < 400 \<longrightarrow>
      me_analyze now kp ms = (me_cachedResult ms, ms))
   \<and> (\<not> de_isModelLoaded s \<or> \<not> de_faceMesh s \<longrightarrow>
      estimateDepth now faces s = (de_cachedResult s, s))
   \<and> fst (estimateDepth now (Inl e) s) = de_cachedResult s
   \<and> (length face \<le> 263 \<longrightarrow> fst (estimateDepth now (Inr (face # fs)) s) = de_cachedResult s)
   \<and> (de_isModelLoaded s \<and> de_faceMesh s \<and>
        (Suc (de_frameCount s) mod 2 = 0 \<or> de_cachedResult s = None) \<longrightarrow>
        fst (estimateDepth now (Inr []) s) = Some NoFaceDetected
        \<and> de_cachedResult (snd (estimateDepth now (Inr []) s)) = de_cachedResult s)
   \<and> depth_result_score NoFaceDetected = Some 0 \<and> \<not> depth_result_isReal NoFaceDetected
   \<and> (length h1 < 3 \<longrightarrow> as_calculateTemporalFast h1 = 0.5)
   \<and> (length h2 < 3 \<longrightarrow> ey_calculateTemporalFast h2 = 0.5)
   \<and> (length h3 < 3 \<longrightarrow> calculateConsistencyFast h3 = Fin 0.5)
   \<and> detectScreenFast None = 0.5 \<and> detectDeepfakeFast None = 0.5 \<and> detectMaskFast None = 0.5
   \<and> detectMaskFast (Some NoFaceDetected) = 0.5
   \<and> (length h4 < 3 \<longrightarrow> scoreTemporalFast h4 = 0.7)
   \<and> (length h5 < 8 \<longrightarrow> detectMicroMovementsFast h5 = 0.5)
   \<and> (length h5 < 3 \<longrightarrow> analyzeCoordinationFast h5 = 0.5)
   \<and> (\<not> as_isReady sp \<longrightarrow> as_analyze im dr pr sp = (as_cachedResult sp, sp))"
proof -
  have a: "\<not> ey_isReady es \<or> kp = None \<or> length (the kp) < 400 \<longrightarrow>
      ey_analyze kp lc rc es = (ey_cachedResult es, es)"
    using eye_insufficient [of es kp lc rc] by (rule impI)
  have b: "\<not> me_isReady ms \<or> kp = None \<or> length (the kp) < 400 \<longrightarrow>
      me_analyze now kp ms = (me_cachedResult ms, ms)"
    using micro_insufficient [of ms kp now] by (rule impI)
  have d: "(length h1 < 3 \<longrightarrow> as_calculateTemporalFast h1 = 0.5)"
    "(length h2 < 3 \<longrightarrow> ey_calculateTemporalFast h2 = 0.5)"
    "(length h3 < 3 \<longrightarrow> calculateConsistencyFast h3 = Fin 0.5)"
    using short_history_neutral by simp_all
  have f: "depth_result_score NoFaceDetected = Some 0" "\<not> depth_result_isReal NoFaceDetected"
    by simp_all
  have g: "length h4 < 3 \<longrightarrow> scoreTemporalFast h4 = 0.7"
    by (simp add: scoreTemporalFast_def)
  have h: "length h5 < 8 \<longrightarrow> detectMicroMovementsFast h5 = 0.5"
    "length h5 < 3 \<longrightarrow> analyzeCoordinationFast h5 = 0.5"
    using short_history_micro by simp_all
  have i: "\<not> as_isReady sp \<longrightarrow> as_analyze im dr pr sp = (as_cachedResult sp, sp)"
    using not_ready_cached [of sp im dr pr] by (rule impI)
  from a b d f g h i depth_insufficient [of s now faces e face fs] missing_results_neutral
  show ?thesis by (intro conjI) simp_all
qed

theorem insufficient_input_witness:
  "ey_analyze None (0, 0) (0, 0) ready_eye_reflection = (None, ready_eye_reflection)
   \<and> me_analyze 0 None (me_run [MeInitialize]) = (None, me_run [MeInitialize])
   \<and> fst (estimateDepth 0 (Inr [[]]) loaded_depth) = None
   \<and> fst (estimateDepth 0 (Inr []) loaded_depth) = Some NoFaceDetected
   \<and> as_calculateTemporalFast [] = 0.5
   \<and> ey_calculateTemporalFast [] = 0.5
   \<and> calculateConsistencyFast [] = Fin 0.5
   \<and> scoreTemporalFast [] = 0.7
   \<and> detectMicroMovementsFast [] = 0.5
   \<and> analyzeCoordinationFast [] = 0.5"
proof -
  note t = insufficient_input [where es = ready_eye_reflection and kp = None
      and lc = "(0, 0)" and rc = "(0, 0)" and ms = "me_run [MeInitialize]" and now = 0
      and s = loaded_depth and face = "[]" and fs = "[]" and ?h1.0 = "[]" and ?h2.0 = "[]"
      and ?h3.0 = "[]" and ?h4.0 = "[]" and ?h5.0 = "[]"]
  have c1: "ey_cachedResult ready_eye_reflection = None"
    by (simp add: ready_eye_reflection_def)
  have c2: "me_cachedResult (me_run [MeInitialize]) = None"
    by (simp add: me_run_def me_initialize_def new_micro_expression_def)
  have c3: "de_cachedResult loaded_depth = None" "de_isModelLoaded loaded_depth"
    "de_faceMesh loaded_depth"
    by (simp_all add: loaded_depth_def)
  from t c1 c2 c3 show ?thesis by simp
qed

subsection \<open>The warm-up of the micro-expression analyzer\<close>

lemma push_shift_grows: "length h \<le> length (push_shift cap x h)"
  by (simp add: push_shift_def Let_def)

lemma push_shift_short: "length h < cap \<Longrightarrow> length (push_shift cap x h) = Suc (length h)"
  by (simp add: push_shift_def Let_def)

lemma me_step_inv:
  assumes "me_cachedResult s = None \<or> 5 \<le> length (me_landmarkHistory s)"
  shows "me_cachedResult (me_step op s) = None \<or> 5 \<le> length (me_landmarkHistory (me_step op s))"
proof (cases op)
  case MeInitialize
  with assms show ?thesis by (simp add: me_initialize_def)
next
  case MeReset
  then show ?thesis by (simp add: me_reset_def)
next
  case (MeAnalyze now kp)
  have g: "length (me_landmarkHistory s) \<le>
      length (me_addToHistory now (the kp) (me_landmarkHistory s))"
    unfolding me_addToHistory_def by (rule push_shift_grows)
  show ?thesis
    using assms g unfolding MeAnalyze
    by (auto simp add: me_analyze_def Let_def)
qed

lemma me_run_inv:
  "me_cachedResult (me_run ops) = None \<or> 5 \<le> length (me_landmarkHistory (me_run ops))"
proof (induction ops rule: rev_induct)
  case Nil
  then show ?case by (simp add: me_run_def new_micro_expression_def)
next
  case (snoc op ops)
  have "me_run (ops @ [op]) = me_step op (me_run ops)" by (simp add: me_run_def)
  with me_step_inv [OF snoc.IH, of op] show ?case by simp
qed

text \<open>The flat face held still: four calls gather, the fifth computes.\<close>

lemma add_flat: "length h < 20 \<Longrightarrow> me_addToHistory now flat_face h = h @ [flat_entry now]"
  by (simp add: me_addToHistory_def push_shift_def me_maxHistory_def flat_entry_def
        keyIndices_def simplify_point_def flat_face_def eye_point_def z_or_0_def)

lemma len_flat: "length flat_face = 468"
  by (simp add: flat_face_def)

lemma analyze_gathering:
  assumes "me_isReady s" and "me_cachedResult s = None"
    and "length (me_landmarkHistory s) < 4"
  shows "me_analyze now (Some flat_face) s =
     (Some gathering, s\<lparr>me_frameCount := me_frameCount s + 1,
        me_landmarkHistory := me_landmarkHistory s @ [flat_entry now]\<rparr>)"
  using assms by (simp add: me_analyze_def Let_def add_flat len_flat)

lemma four_entries_eval:
  "four_entries = \<lparr>me_isReady = True,
     me_landmarkHistory = [flat_entry 0, flat_entry 200, flat_entry 400, flat_entry 600],
     me_lastResult = None, me_cachedResult = None, me_frameCount = 4\<rparr>"
  by (simp add: four_entries_def me_run_def me_initialize_def new_micro_expression_def
        analyze_gathering)

lemma movement_flat:
  "j < 5 \<Longrightarrow> movement (he_keypoints (flat_entry t)) (he_keypoints (flat_entry t')) j = 0"
  by (simp add: movement_def flat_entry_def nth_Cons split: nat.splits)

lemma py_flat: "j < 5 \<Longrightarrow> py (he_keypoints (flat_entry t) ! j) = 0"
  by (simp add: flat_entry_def nth_Cons split: nat.splits)

lemma len_entry: "length (he_keypoints (flat_entry t)) = 5"
  by (simp add: flat_entry_def)

lemma upts: "[0..<5] = [0, 1, 2, 3, 4]" "[1..<3] = [1, 2]" "[1..<5] = [1, 2, 3, 4]"
  by code_simp+

lemma five_movements:
  "analyzeMovementsFast [flat_entry 0, flat_entry 200, flat_entry 400, flat_entry 600,
     flat_entry 800] = (0, 0)"
  by (simp add: analyzeMovementsFast_def Let_def len_entry movement_flat upts)

lemma five_coordination:
  "analyzeCoordinationFast [flat_entry 0, flat_entry 200, flat_entry 400, flat_entry 600,
     flat_entry 800] = 1"
  by (simp add: analyzeCoordinationFast_def Let_def slice_last_def py_flat upts)

lemma five_count:
  "countMicroMovementsFast [flat_entry 0, flat_entry 200, flat_entry 400, flat_entry 600,
     flat_entry 800] = 0"
  by (simp add: countMicroMovementsFast_def Let_def slice_last_def movement_flat upts)

lemma fifth_call:
  "fst (me_analyze 800 (Some flat_face) four_entries) =
     Some \<lparr>mr_isReal = False, mr_score = 58, mr_message = None, mr_naturalness = Some 30,
       mr_involuntaryScore = Some 50, mr_coordinationScore = Some 100, mr_microMovements = 0,
       mr_issues = Some [''Unnatural movement'']\<rparr>"
  unfolding four_entries_eval
  by (simp add: me_analyze_def Let_def add_flat len_flat five_movements five_coordination
        five_count evaluateNaturalnessFast_def detectMicroMovementsFast_def js_round_def)

lemma push_shift_four: "4 \<le> length h \<Longrightarrow> 5 \<le> length (push_shift 20 x h)"
  by (simp add: push_shift_def Let_def)

lemma analyze_computes:
  assumes "me_isReady s" and "400 \<le> length kp" and "4 \<le> length (me_landmarkHistory s)"
    and "me_cachedResult s = None \<or> (me_frameCount s + 1) mod 2 = 0"
  shows "\<exists>r. fst (me_analyze now (Some kp) s) = Some r \<and> mr_message r = None"
proof -
  have "5 \<le> length (me_addToHistory now kp (me_landmarkHistory s))"
    unfolding me_addToHistory_def me_maxHistory_def using assms(3) by (rule push_shift_four)
  then have l: "\<not> length (me_addToHistory now kp (me_landmarkHistory s)) < 5" by simp
  from assms(1,2,4) l show ?thesis
    by (auto simp add: me_analyze_def Let_def)
qed

text \<open>
  C10 as stated fails at the boundary. The analyzer \<open>four_entries\<close> is reached from the
  construction by \<open>initialize\<close> and four calls of \<open>analyze\<close>; it is ready and has
  accumulated four entries, fewer than five. Its next call, on a face of 468 keypoints,
  stores the fifth entry before the length is tested, and returns a computed result:
  the verdict is not real and the score is 58.
\<close>

theorem micro_fifth_call_computed:
  "me_isReady four_entries
   \<and> length (me_landmarkHistory four_entries) = 4
   \<and> 400 \<le> length flat_face
   \<and> fst (me_analyze 800 (Some flat_face) four_entries) =
       Some \<lparr>mr_isReal = False, mr_score = 58, mr_message = None, mr_naturalness = Some 30,
         mr_involuntaryScore = Some 50, mr_coordinationScore = Some 100,
         mr_microMovements = 0, mr_issues = Some [''Unnatural movement'']\<rparr>"
proof -
  have "me_isReady four_entries" "length (me_landmarkHistory four_entries) = 4"
    unfolding four_entries_eval by simp_all
  moreover have "400 \<le> length flat_face" by (simp add: len_flat)
  ultimately show ?thesis using fifth_call by (intro conjI)
qed

text \<open>
  C10 as amended. In every state the micro-expression analyzer reaches from its
  construction by calls of \<open>initialize\<close>, \<open>analyze\<close> and \<open>reset\<close>: when it is ready and
  fewer than four entries are stored, so that the entry of the call itself leaves fewer
  than five, a call with at least 400 keypoints returns the gathering result, whose
  verdict is real and whose score is 50. In any state that is ready and stores four
  entries or more, a call with at least 400 keypoints that is not answered from the
  cache (no result is cached, or the call is an even one) returns a computed result,
  which carries no message, and so not the gathering result.
\<close>

theorem micro_warmup:
  "(me_isReady (me_run ops) \<and> 400 \<le> length kp \<and>
    length (me_landmarkHistory (me_run ops)) < 4 \<longrightarrow>
      fst (me_analyze now (Some kp) (me_run ops)) = Some gathering
      \<and> mr_isReal gathering \<and> mr_score gathering = 50)
   \<and> (me_isReady s \<and> 400 \<le> length kp' \<and> 4 \<le> length (me_landmarkHistory s) \<and>
      (me_cachedResult s = None \<or> (me_frameCount s + 1) mod 2 = 0) \<longrightarrow>
      (\<exists>r. fst (me_analyze now' (Some kp') s) = Some r \<and> mr_message r = None)
      \<and> fst (me_analyze now' (Some kp') s) \<noteq> Some gathering)"
proof (intro conjI impI; (elim conjE)?)
  assume a: "me_isReady (me_run ops)" "400 \<le> length kp"
    "length (me_landmarkHistory (me_run ops)) < 4"
  from me_run_inv [of ops] a(3) have c: "me_cachedResult (me_run ops) = None" by simp
  have "length (me_addToHistory now kp (me_landmarkHistory (me_run ops))) =
      Suc (length (me_landmarkHistory (me_run ops)))"
    unfolding me_addToHistory_def using a(3)
    by (intro push_shift_short) (simp add: me_maxHistory_def)
  with a(3) have l: "length (me_addToHistory now kp (me_landmarkHistory (me_run ops))) < 5"
    by simp
  from a(1,2) c l show "fst (me_analyze now (Some kp) (me_run ops)) = Some gathering"
    by (simp add: me_analyze_def Let_def)
next
  show "mr_isReal gathering" by (simp add: gathering_def)
next
  show "mr_score gathering = 50" by (simp add: gathering_def)
next
  assume a: "me_isReady s" "400 \<le> length kp'" "4 \<le> length (me_landmarkHistory s)"
    "me_cachedResult s = None \<or> (me_frameCount s + 1) mod 2 = 0"
  then show "\<exists>r. fst (me_analyze now' (Some kp') s) = Some r \<and> mr_message r = None"
    by (rule analyze_computes)
next
  assume a: "me_isReady s" "400 \<le> length kp'" "4 \<le> length (me_landmarkHistory s)"
    "me_cachedResult s = None \<or> (me_frameCount s + 1) mod 2 = 0"
  from analyze_computes [OF a, of now'] obtain r where
    r: "fst (me_analyze now' (Some kp') s) = Some r" "mr_message r = None" by (elim exE conjE)
  have "mr_message gathering \<noteq> None" by (simp add: gathering_def)
  with r show "fst (me_analyze now' (Some kp') s) \<noteq> Some gathering" by auto
qed

theorem micro_warmup_witness:
  "me_isReady (me_run [MeInitialize])
   \<and> 400 \<le> length flat_face
   \<and> length (me_landmarkHistory (me_run [MeInitialize])) < 4
   \<and> fst (me_analyze 0 (Some flat_face) (me_run [MeInitialize])) = Some gathering
   \<and> mr_isReal gathering \<and> mr_score gathering = 50
   \<and> me_isReady four_entries
   \<and> 4 \<le> length (me_landmarkHistory four_entries)
   \<and> me_cachedResult four_entries = None
   \<and> fst (me_analyze 800 (Some flat_face) four_entries) \<noteq> Some gathering"
proof -
  have h1: "me_isReady (me_run [MeInitialize])"
    by (simp add: me_run_def me_initialize_def)
  have h2: "400 \<le> length flat_face" by (simp add: len_flat)
  have h3: "length (me_landmarkHistory (me_run [MeInitialize])) < 4"
    by (simp add: me_run_def me_initialize_def new_micro_expression_def)
  have h4: "me_isReady four_entries" "4 \<le> length (me_landmarkHistory four_entries)"
    "me_cachedResult four_entries = None"
    unfolding four_entries_eval by simp_all
  note t = micro_warmup [of "[MeInitialize]" flat_face 0 four_entries flat_face 800]
  from t [THEN conjunct1, THEN mp, OF conjI [OF h1 conjI [OF h2 h3]]]
  have c1: "fst (me_analyze 0 (Some flat_face) (me_run [MeInitialize])) = Some gathering
      \<and> mr_isReal gathering \<and> mr_score gathering = 50" .
  from t [THEN conjunct2, THEN mp, OF conjI [OF h4(1) conjI [OF h2 conjI [OF h4(2) disjI1 [OF h4(3)]]]]]
  have c2: "fst (me_analyze 800 (Some flat_face) four_entries) \<noteq> Some gathering"
    by (rule conjunct2)
  from h1 h2 h3 c1 h4 c2 show ?thesis by (intro conjI) simp_all
qed

end
